theory Spec2Isabelle
  imports Complex_Main "HOL-Library.Word"
begin

text \<open>
  The connection manager of the plugin (\<^verbatim>\<open>src/ws-manager.ts\<close>, with the types of
  \<^verbatim>\<open>src/types.ts\<close>): its settings, its state store, its command dispatcher and its
  reconnecting WebSocket session, as functions on the manager's state, one for each
  method, handler and timer callback of the source.
\<close>

section \<open>JavaScript values used by the connection manager\<close>

text \<open>
  A JavaScript string is a sequence of UTF-16 code units. String literals of the source
  are ASCII; \<open>js\<close> embeds such a literal.
\<close>

type_synonym jsstring = "16 word list"

definition js :: "string \<Rightarrow> jsstring" where
  "js s = map (\<lambda>c. of_nat (of_char c)) s"

text \<open>
  ECMAScript white space and line terminators: the code units removed by
  \<^verbatim>\<open>String.prototype.trim\<close> and skipped by \<^verbatim>\<open>parseInt\<close>.
\<close>

definition isWhiteSpace :: "16 word \<Rightarrow> bool" where
  "isWhiteSpace c =
     (c = 0x09 \<or> c = 0x0A \<or> c = 0x0B \<or> c = 0x0C \<or> c = 0x0D \<or> c = 0x20 \<or>
      c = 0xA0 \<or> c = 0x1680 \<or> (0x2000 \<le> c \<and> c \<le> 0x200A) \<or> c = 0x2028 \<or>
      c = 0x2029 \<or> c = 0x202F \<or> c = 0x205F \<or> c = 0x3000 \<or> c = 0xFEFF)"

definition trim :: "jsstring \<Rightarrow> jsstring" where
  "trim s = rev (dropWhile isWhiteSpace (rev (dropWhile isWhiteSpace s)))"

definition isDigit :: "16 word \<Rightarrow> bool" where
  "isDigit c = (0x30 \<le> c \<and> c \<le> 0x39)"

definition digitValue :: "16 word \<Rightarrow> int" where
  "digitValue c = int (unat c) - 48"

definition decimalValue :: "jsstring \<Rightarrow> int" where
  "decimalValue ds = foldl (\<lambda>a c. 10 * a + digitValue c) 0 ds"

text \<open>
  \<^verbatim>\<open>parseInt(value, 10)\<close>: skip leading white space, read an optional sign, then the
  longest run of decimal digits; \<open>None\<close> is \<^verbatim>\<open>NaN\<close> (no digit there). The result is
  the mathematical integer: JavaScript rounds it to a double, which changes a value only
  beyond \<open>2 ^ 53\<close>, far outside the port range the caller tests it against.
\<close>

definition parseInt :: "jsstring \<Rightarrow> int option" where
  "parseInt s =
     (let t = dropWhile isWhiteSpace s;
          negative = (t \<noteq> [] \<and> hd t = 0x2D);
          u = (if t \<noteq> [] \<and> (hd t = 0x2B \<or> hd t = 0x2D) then tl t else t);
          z = takeWhile isDigit u
      in if z = [] then None
         else Some (if negative then - decimalValue z else decimalValue z))"

text \<open>A JavaScript number: a finite value, or one of the three that is not.\<close>

datatype jsnumber = Finite rat | NaN | PosInfinity | NegInfinity

datatype portValue = PUndefined | PString jsstring | PNumber jsnumber

text \<open>The parsed JSON of an inbound frame. Objects hold their own properties by name.\<close>

datatype json =
    JNull
  | JBool bool
  | JNum rat
  | JStr jsstring
  | JArr "json list"
  | JObj "(jsstring \<times> json) list"

text \<open>
  Property access \<^verbatim>\<open>v.name\<close>, \<open>None\<close> for \<^verbatim>\<open>undefined\<close>. The source reads only the
  properties success, error, data, pong, device, muted, deafened and recording, which
  no array, string, number or boolean has.
\<close>

fun getProp :: "json \<Rightarrow> jsstring \<Rightarrow> json option" where
  "getProp (JObj kvs) k = map_of kvs k"
| "getProp _ k = None"

fun truthy :: "json \<Rightarrow> bool" where
  "truthy JNull = False"
| "truthy (JBool b) = b"
| "truthy (JNum q) = (q \<noteq> 0)"
| "truthy (JStr s) = (s \<noteq> [])"
| "truthy (JArr _) = True"
| "truthy (JObj _) = True"

text \<open>\<^verbatim>\<open>typeof v === "object"\<close>; \<^verbatim>\<open>typeof null\<close> is "object" as well.\<close>

fun typeofObject :: "json \<Rightarrow> bool" where
  "typeofObject JNull = True"
| "typeofObject (JArr _) = True"
| "typeofObject (JObj _) = True"
| "typeofObject _ = False"

text \<open>
  Whether the conversion of a value to a string, as a template literal does it, throws a
  TypeError. A primitive value converts. An object converts through its \<^verbatim>\<open>toString\<close>
  method: an object parsed from JSON inherits the one of \<^verbatim>\<open>Object.prototype\<close>, unless
  it has a property of that name of its own, which is then no function, and the
  conversion has nothing left to call that returns a primitive value. An array joins
  the conversions of its elements, \<^verbatim>\<open>null\<close> giving the empty string.
\<close>

fun toStringThrows :: "json \<Rightarrow> bool" where
  "toStringThrows (JArr xs) = list_ex toStringThrows xs"
| "toStringThrows (JObj kvs) = (map_of kvs (js ''toString'') \<noteq> None)"
| "toStringThrows _ = False"

text \<open>\<^verbatim>\<open>typeof v === "boolean"\<close>, with the boolean when it is one.\<close>

fun asBoolean :: "json option \<Rightarrow> bool option" where
  "asBoolean (Some (JBool b)) = Some b"
| "asBoolean _ = None"

section \<open>types.ts\<close>

datatype device = Input | Output

datatype BvcCommand = Ping | Mute device | Record | State

record BvcState =
  connected :: bool
  inputMuted :: "bool option"
  outputMuted :: "bool option"
  recording :: "bool option"

datatype BvcStateEvent =
    connectionChanged bool
  | inputMuteChanged "bool option"
  | outputMuteChanged "bool option"
  | recordingChanged "bool option"

text \<open>
  The settings the manager reads, each a string or absent (\<open>None\<close>), as \<^verbatim>\<open>GlobalSettings\<close>
  declares them.
\<close>

record GlobalSettings =
  gs_host :: "jsstring option"
  gs_port :: "jsstring option"
  gs_authenticationKey :: "jsstring option"

section \<open>ws-manager.ts: constants and port parsing (lines 7 to 19)\<close>

definition DEFAULT_HOST :: jsstring where
  "DEFAULT_HOST = js ''127.0.0.1''"

definition DEFAULT_PORT :: rat where
  "DEFAULT_PORT = 9595"

definition RECONNECT_BASE_MS :: nat where
  "RECONNECT_BASE_MS = 1000"

definition RECONNECT_MAX_MS :: nat where
  "RECONNECT_MAX_MS = 30000"

definition PING_INTERVAL_MS :: nat where
  "PING_INTERVAL_MS = 15000"

definition STABLE_THRESHOLD_MS :: nat where
  "STABLE_THRESHOLD_MS = 30000"

text \<open>
  \<^verbatim>\<open>Number.isFinite(n) && n > 0 && n <= 65535 ? n : DEFAULT_PORT\<close>. A port is a
  JavaScript number; \<open>parsePort\<close> returns finite ones only, so its result is a rational.
\<close>

fun portInRange :: "jsnumber \<Rightarrow> rat" where
  "portInRange (Finite n) = (if 0 < n \<and> n \<le> 65535 then n else DEFAULT_PORT)"
| "portInRange _ = DEFAULT_PORT"

fun parsePort :: "portValue \<Rightarrow> rat" where
  "parsePort PUndefined = DEFAULT_PORT"
| "parsePort (PString s) =
     (if s = [] then DEFAULT_PORT
      else portInRange (case parseInt s of None \<Rightarrow> NaN | Some n \<Rightarrow> Finite (of_int n)))"
| "parsePort (PNumber n) = portInRange n"

section \<open>ws-manager.ts: the manager and its environment\<close>

text \<open>
  The WebSocket library and the timers of the runtime are the manager's environment.
  A socket is named by the index at which \<^verbatim>\<open>new WebSocket\<close> created it, a timer by the
  index at which \<^verbatim>\<open>setTimeout\<close> or \<^verbatim>\<open>setInterval\<close> created it; a handle held by the
  manager is such an index. A failure callback is named by a number.
\<close>

datatype readyState = CONNECTING | OPEN | CLOSING | CLOSED

record socket =
  readyState :: readyState
  urlHost :: jsstring
  urlPort :: rat

datatype timerKind = ReconnectTimeout | PingInterval | StableTimeout

record timer =
  kind :: timerKind
  delay :: nat
  active :: bool

type_synonym callback = nat

type_synonym frame = "(jsstring \<times> jsstring) list"

record WsManager =
  ws :: "nat option"
  host :: jsstring
  port :: rat
  authenticationKey :: jsstring
  reconnectTimer :: "nat option"
  pingTimer :: "nat option"
  stableTimer :: "nat option"
  awaitingPong :: bool
  backoffAttempts :: nat
  intentionalClose :: bool
  pendingErrorCallback :: "callback option"
  state :: BvcState
  sockets :: "socket list"
  timers :: "timer list"
  emitted :: "BvcStateEvent list"
  transmitted :: "(nat \<times> frame) list"
  pinged :: "nat list"
  invoked :: "callback list"

text \<open>
  The last six fields are the effects of the manager on its environment: the sockets and
  timers it created, the events passed to \<^verbatim>\<open>emit\<close>, the frames given to \<^verbatim>\<open>ws.send\<close>
  with their socket, the sockets pinged, and the failure callbacks called, each in order.
  Failure callbacks and listeners are taken to return normally.
\<close>

definition initialManager :: WsManager where
  "initialManager =
     \<lparr>ws = None, host = DEFAULT_HOST, port = DEFAULT_PORT, authenticationKey = [],
      reconnectTimer = None, pingTimer = None, stableTimer = None, awaitingPong = False,
      backoffAttempts = 0, intentionalClose = False, pendingErrorCallback = None,
      state = \<lparr>connected = False, inputMuted = None, outputMuted = None, recording = None\<rparr>,
      sockets = [], timers = [], emitted = [], transmitted = [], pinged = [], invoked = []\<rparr>"

subsection \<open>The environment's primitives\<close>

definition readyStateOf :: "WsManager \<Rightarrow> nat \<Rightarrow> readyState option" where
  "readyStateOf m s = (if s < length (sockets m) then Some (readyState (sockets m ! s)) else None)"

definition setReadyState :: "nat \<Rightarrow> readyState \<Rightarrow> WsManager \<Rightarrow> WsManager" where
  "setReadyState s r m =
     (if s < length (sockets m)
      then m\<lparr>sockets := (sockets m)[s := (sockets m ! s)\<lparr>readyState := r\<rparr>]\<rparr>
      else m)"

text \<open>
  \<^verbatim>\<open>ws.terminate()\<close> destroys the connection: a socket that is not yet closed becomes
  CLOSING. Its close event is emitted when the destroyed connection has closed, in a
  later turn of the event loop and never from inside \<^verbatim>\<open>terminate\<close>, so the close handler
  runs as an event of its own, after the caller of \<^verbatim>\<open>terminate\<close> has returned. The
  source relies on this: \<^verbatim>\<open>disconnect\<close> leaves \<^verbatim>\<open>intentionalClose\<close> set when it
  returns, for the close handler to read, and updates the store itself.
\<close>

definition terminate :: "nat \<Rightarrow> WsManager \<Rightarrow> WsManager" where
  "terminate s m =
     (if readyStateOf m s = Some CLOSED then m else setReadyState s CLOSING m)"

text \<open>
  \<^verbatim>\<open>new WebSocket(url)\<close> for a host and port that form a valid URL: the library
  returns a socket that is CONNECTING. For a host that forms no valid URL the
  constructor throws instead, and \<^verbatim>\<open>connect\<close> is left with no socket held; such hosts
  are outside this model, whose runs use the hosts 127.0.0.1 and 10.0.0.2.
\<close>

definition newWebSocket :: "WsManager \<Rightarrow> nat \<times> WsManager" where
  "newWebSocket m =
     (length (sockets m),
      m\<lparr>sockets := sockets m @ [\<lparr>readyState = CONNECTING, urlHost = host m, urlPort = port m\<rparr>]\<rparr>)"

definition setTimer :: "timerKind \<Rightarrow> nat \<Rightarrow> WsManager \<Rightarrow> nat \<times> WsManager" where
  "setTimer k d m =
     (length (timers m), m\<lparr>timers := timers m @ [\<lparr>kind = k, delay = d, active = True\<rparr>]\<rparr>)"

definition clearTimer :: "nat \<Rightarrow> WsManager \<Rightarrow> WsManager" where
  "clearTimer t m =
     (if t < length (timers m)
      then m\<lparr>timers := (timers m)[t := (timers m ! t)\<lparr>active := False\<rparr>]\<rparr>
      else m)"

subsection \<open>Settings: applySettings (lines 59 to 70)\<close>

text \<open>\<^verbatim>\<open>s.host?.trim() || DEFAULT_HOST\<close> and \<^verbatim>\<open>s.authenticationKey?.trim() ?? ""\<close>\<close>

definition resolveHost :: "jsstring option \<Rightarrow> jsstring" where
  "resolveHost h = (case h of None \<Rightarrow> DEFAULT_HOST
                    | Some v \<Rightarrow> if trim v = [] then DEFAULT_HOST else trim v)"

definition resolveKey :: "jsstring option \<Rightarrow> jsstring" where
  "resolveKey k = (case k of None \<Rightarrow> [] | Some v \<Rightarrow> trim v)"

definition resolvePort :: "jsstring option \<Rightarrow> rat" where
  "resolvePort p = parsePort (case p of None \<Rightarrow> PUndefined | Some v \<Rightarrow> PString v)"

definition applySettings :: "GlobalSettings \<Rightarrow> WsManager \<Rightarrow> bool \<times> WsManager" where
  "applySettings s m =
     (let newHost = resolveHost (gs_host s);
          newPort = resolvePort (gs_port s);
          newKey = resolveKey (gs_authenticationKey s);
          changed = (newHost \<noteq> host m \<or> newPort \<noteq> port m \<or> newKey \<noteq> authenticationKey m)
      in (changed, m\<lparr>host := newHost, port := newPort, authenticationKey := newKey\<rparr>))"

subsection \<open>Notifications and remote state (lines 182 to 257)\<close>

text \<open>
  \<^verbatim>\<open>emit\<close> calls every registered listener with the event; the model records the
  event. The registration of listeners (\<^verbatim>\<open>on\<close>) changes nothing else and is left out.
\<close>

definition emit :: "BvcStateEvent \<Rightarrow> WsManager \<Rightarrow> WsManager" where
  "emit ev m = m\<lparr>emitted := emitted m @ [ev]\<rparr>"

definition setConnected :: "bool \<Rightarrow> WsManager \<Rightarrow> WsManager" where
  "setConnected c m = emit (connectionChanged c) (m\<lparr>state := (state m)\<lparr>connected := c\<rparr>\<rparr>)"

definition setDisconnectedState :: "WsManager \<Rightarrow> WsManager" where
  "setDisconnectedState m =
     (let m1 = (if inputMuted (state m) \<noteq> None
                then emit (inputMuteChanged None) (m\<lparr>state := (state m)\<lparr>inputMuted := None\<rparr>\<rparr>)
                else m);
          m2 = (if outputMuted (state m1) \<noteq> None
                then emit (outputMuteChanged None) (m1\<lparr>state := (state m1)\<lparr>outputMuted := None\<rparr>\<rparr>)
                else m1)
      in if recording (state m2) \<noteq> None
         then emit (recordingChanged None) (m2\<lparr>state := (state m2)\<lparr>recording := None\<rparr>\<rparr>)
         else m2)"

text \<open>
  The four tests of \<^verbatim>\<open>handleMessage\<close>, in the order of the source; a \<open>case\<close> reads the
  boolean that the test before it has found.
\<close>

definition handleMessage :: "json \<Rightarrow> WsManager \<Rightarrow> WsManager" where
  "handleMessage data m =
     (if getProp data (js ''pong'') = Some (JBool True) then m
      else if getProp data (js ''device'') = Some (JStr (js ''input'')) \<and>
              asBoolean (getProp data (js ''muted'')) \<noteq> None
      then (case asBoolean (getProp data (js ''muted'')) of
              None \<Rightarrow> m
            | Some muted \<Rightarrow>
                if inputMuted (state m) \<noteq> Some muted
                then emit (inputMuteChanged (Some muted))
                       (m\<lparr>state := (state m)\<lparr>inputMuted := Some muted\<rparr>\<rparr>)
                else m)
      else if getProp data (js ''device'') = Some (JStr (js ''output'')) \<and>
              asBoolean (getProp data (js ''muted'')) \<noteq> None
      then (case asBoolean (getProp data (js ''muted'')) of
              None \<Rightarrow> m
            | Some muted \<Rightarrow>
                if outputMuted (state m) \<noteq> Some muted
                then emit (outputMuteChanged (Some muted))
                       (m\<lparr>state := (state m)\<lparr>outputMuted := Some muted\<rparr>\<rparr>)
                else m)
      else if asBoolean (getProp data (js ''muted'')) \<noteq> None \<and>
              asBoolean (getProp data (js ''deafened'')) \<noteq> None \<and>
              asBoolean (getProp data (js ''recording'')) \<noteq> None
      then (case (asBoolean (getProp data (js ''muted'')),
                  asBoolean (getProp data (js ''deafened'')),
                  asBoolean (getProp data (js ''recording''))) of
              (Some muted, Some deafened, Some rec) \<Rightarrow>
                (let m1 = (if inputMuted (state m) \<noteq> Some muted
                           then emit (inputMuteChanged (Some muted))
                                  (m\<lparr>state := (state m)\<lparr>inputMuted := Some muted\<rparr>\<rparr>)
                           else m);
                     m2 = (if outputMuted (state m1) \<noteq> Some deafened
                           then emit (outputMuteChanged (Some deafened))
                                  (m1\<lparr>state := (state m1)\<lparr>outputMuted := Some deafened\<rparr>\<rparr>)
                           else m1)
                 in if recording (state m2) \<noteq> Some rec
                    then emit (recordingChanged (Some rec))
                           (m2\<lparr>state := (state m2)\<lparr>recording := Some rec\<rparr>\<rparr>)
                    else m2)
            | _ \<Rightarrow> m)
      else (case asBoolean (getProp data (js ''recording'')) of
              Some rec \<Rightarrow>
                if recording (state m) \<noteq> Some rec
                then emit (recordingChanged (Some rec))
                       (m\<lparr>state := (state m)\<lparr>recording := Some rec\<rparr>\<rparr>)
                else m
            | None \<Rightarrow> m))"

subsection \<open>Sending commands: send (lines 77 to 88)\<close>

text \<open>The own properties of a command object, in order.\<close>

fun commandFields :: "BvcCommand \<Rightarrow> frame" where
  "commandFields Ping = [(js ''action'', js ''ping'')]"
| "commandFields (Mute Input) = [(js ''action'', js ''mute''), (js ''device'', js ''input'')]"
| "commandFields (Mute Output) = [(js ''action'', js ''mute''), (js ''device'', js ''output'')]"
| "commandFields Record = [(js ''action'', js ''record'')]"
| "commandFields State = [(js ''action'', js ''state'')]"

text \<open>
  The payload object handed to \<^verbatim>\<open>JSON.stringify\<close>: the command's properties, and
  \<^verbatim>\<open>key\<close> when the authentication key is a non-empty string.
\<close>

definition payload :: "BvcCommand \<Rightarrow> jsstring \<Rightarrow> frame" where
  "payload cmd k = commandFields cmd @ (if k \<noteq> [] then [(js ''key'', k)] else [])"

definition send :: "BvcCommand \<Rightarrow> callback option \<Rightarrow> WsManager \<Rightarrow> bool \<times> WsManager" where
  "send cmd onError m =
     (case ws m of
        None \<Rightarrow> (False, m)
      | Some s \<Rightarrow>
          if readyStateOf m s \<noteq> Some OPEN then (False, m)
          else (True, m\<lparr>pendingErrorCallback := onError,
                        transmitted := transmitted m @ [(s, payload cmd (authenticationKey m))]\<rparr>))"

subsection \<open>Timers (lines 259 to 306)\<close>

text \<open>
  \<^verbatim>\<open>Math.pow(2, attempts)\<close> is exact as long as it is finite and infinite beyond, where
  \<^verbatim>\<open>Math.min\<close> returns the ceiling as it does for every large power, so the delay is
  the minimum over the natural numbers.
\<close>

definition reconnectDelay :: "nat \<Rightarrow> nat" where
  "reconnectDelay attempts = min (RECONNECT_BASE_MS * 2 ^ attempts) RECONNECT_MAX_MS"

definition scheduleReconnect :: "WsManager \<Rightarrow> WsManager" where
  "scheduleReconnect m =
     (let d = reconnectDelay (backoffAttempts m);
          m1 = m\<lparr>backoffAttempts := backoffAttempts m + 1\<rparr>;
          (t, m2) = setTimer ReconnectTimeout d m1
      in m2\<lparr>reconnectTimer := Some t\<rparr>)"

definition startPing :: "WsManager \<Rightarrow> WsManager" where
  "startPing m =
     (let (t, m1) = setTimer PingInterval PING_INTERVAL_MS (m\<lparr>awaitingPong := False\<rparr>)
      in m1\<lparr>pingTimer := Some t\<rparr>)"

definition stopPing :: "WsManager \<Rightarrow> WsManager" where
  "stopPing m =
     (case pingTimer m of
        Some t \<Rightarrow> (clearTimer t m)\<lparr>pingTimer := None\<rparr>
      | None \<Rightarrow> m)\<lparr>awaitingPong := False\<rparr>"

definition startStableTimer :: "WsManager \<Rightarrow> WsManager" where
  "startStableTimer m =
     (let (t, m1) = setTimer StableTimeout STABLE_THRESHOLD_MS m
      in m1\<lparr>stableTimer := Some t\<rparr>)"

definition stopStableTimer :: "WsManager \<Rightarrow> WsManager" where
  "stopStableTimer m =
     (case stableTimer m of
        Some t \<Rightarrow> (clearTimer t m)\<lparr>stableTimer := None\<rparr>
      | None \<Rightarrow> m)"

subsection \<open>Connecting and disconnecting (lines 90 to 108, 161 and 164 to 180)\<close>

definition connect :: "WsManager \<Rightarrow> WsManager" where
  "connect m =
     (let m1 = (case reconnectTimer m of
                  Some t \<Rightarrow> (clearTimer t m)\<lparr>reconnectTimer := None\<rparr>
                | None \<Rightarrow> m);
          m2 = (case ws m1 of
                  Some s \<Rightarrow> (terminate s (m1\<lparr>intentionalClose := True\<rparr>))\<lparr>ws := None\<rparr>
                | None \<Rightarrow> m1);
          m3 = m2\<lparr>intentionalClose := False\<rparr>;
          (s, m4) = newWebSocket m3
      in m4\<lparr>ws := Some s\<rparr>)"

definition disconnect :: "WsManager \<Rightarrow> WsManager" where
  "disconnect m =
     (let m1 = m\<lparr>intentionalClose := True\<rparr>;
          m2 = (case reconnectTimer m1 of
                  Some t \<Rightarrow> (clearTimer t m1)\<lparr>reconnectTimer := None\<rparr>
                | None \<Rightarrow> m1);
          m3 = stopStableTimer (stopPing m2);
          m4 = (case ws m3 of
                  Some s \<Rightarrow> (terminate s m3)\<lparr>ws := None\<rparr>
                | None \<Rightarrow> m3)
      in if connected (state m4) then setDisconnectedState (setConnected False m4) else m4)"

subsection \<open>The handlers a socket is given in connect (lines 110 to 159)\<close>

text \<open>
  The handlers close over the manager only, so every socket has the same ones, and each
  acts on the manager's current fields, whichever socket the event is of.
\<close>

definition onOpen :: "WsManager \<Rightarrow> WsManager" where
  "onOpen m = startStableTimer (startPing (snd (send State None (setConnected True m))))"

definition onClose :: "WsManager \<Rightarrow> WsManager" where
  "onClose m =
     (let m1 = (stopStableTimer (stopPing m))\<lparr>ws := None\<rparr>;
          m2 = (if connected (state m1) then setDisconnectedState (setConnected False m1) else m1)
      in if \<not> intentionalClose m2 then scheduleReconnect m2 else m2)"

definition onPong :: "WsManager \<Rightarrow> WsManager" where
  "onPong m = m\<lparr>awaitingPong := False\<rparr>"

text \<open>
  The log statement of the failure branch (line 148) converts
  \<^verbatim>\<open>msg.error ?? "unknown"\<close> to a string before the callback is called. When the
  conversion throws, the \<^verbatim>\<open>catch\<close> of the handler takes over.
\<close>

definition errorLogThrows :: "json \<Rightarrow> bool" where
  "errorLogThrows msg =
     (case getProp msg (js ''error'') of
        None \<Rightarrow> False
      | Some e \<Rightarrow> toStringThrows e)"

text \<open>
  The message handler, on the result of \<^verbatim>\<open>JSON.parse\<close>: \<open>None\<close> when the frame does
  not parse. The handler catches that exception, and any other thrown in its
  \<^verbatim>\<open>try\<close> block, and logs it; the manager is then as the statements before the
  exception left it.
\<close>

definition onMessage :: "json option \<Rightarrow> WsManager \<Rightarrow> WsManager" where
  "onMessage parsed m =
     (case parsed of
        None \<Rightarrow> m
      | Some msg \<Rightarrow>
          if \<not> truthy msg \<or> \<not> typeofObject msg then m
          else if getProp msg (js ''success'') = Some (JBool False)
          then (if errorLogThrows msg then m
                else (case pendingErrorCallback m of
                        Some cb \<Rightarrow> m\<lparr>invoked := invoked m @ [cb], pendingErrorCallback := None\<rparr>
                      | None \<Rightarrow> m\<lparr>pendingErrorCallback := None\<rparr>))
          else (case getProp msg (js ''data'') of
                  None \<Rightarrow> m
                | Some d \<Rightarrow> if \<not> truthy d then m else handleMessage d m))"

subsection \<open>The callbacks of the timers (lines 266 to 269, 274 to 284, 296 to 298)\<close>

definition reconnectCallback :: "WsManager \<Rightarrow> WsManager" where
  "reconnectCallback m = connect (m\<lparr>reconnectTimer := None\<rparr>)"

definition pingCallback :: "WsManager \<Rightarrow> WsManager" where
  "pingCallback m =
     (if awaitingPong m
      then (case ws m of Some s \<Rightarrow> terminate s m | None \<Rightarrow> m)
      else (case ws m of
              Some s \<Rightarrow>
                if readyStateOf m s = Some OPEN
                then m\<lparr>awaitingPong := True, pinged := pinged m @ [s]\<rparr>
                else m
            | None \<Rightarrow> m))"

definition stableCallback :: "WsManager \<Rightarrow> WsManager" where
  "stableCallback m = m\<lparr>backoffAttempts := 0\<rparr>"

subsection \<open>initialize and the settings listener (lines 42 to 57)\<close>

definition initialize :: "GlobalSettings \<Rightarrow> WsManager \<Rightarrow> WsManager" where
  "initialize gs m = connect (snd (applySettings gs m))"

definition onDidReceiveGlobalSettings :: "GlobalSettings \<Rightarrow> WsManager \<Rightarrow> WsManager" where
  "onDidReceiveGlobalSettings gs m =
     (let (changed, m1) = applySettings gs m
      in if changed then connect ((disconnect m1)\<lparr>backoffAttempts := 0\<rparr>) else m1)"

section \<open>The event loop\<close>

text \<open>
  Everything the manager does after \<^verbatim>\<open>initialize\<close> is the handling of one event at a
  time: a change of the global settings, a command sent by an action, an event of one of
  the sockets it created, or a timer that fires. An event is enabled when the environment
  can deliver it: a socket opens once, from CONNECTING; it receives frames and pongs
  while OPEN; it closes once, from any state but CLOSED (a failed connection attempt, a
  close by the peer, or the close that follows \<^verbatim>\<open>terminate\<close>); a timer fires while it
  is active, a timeout only once.
\<close>

datatype event =
    DidReceiveGlobalSettings GlobalSettings
  | Send BvcCommand "callback option"
  | SocketOpen nat
  | SocketClose nat
  | SocketError nat
  | SocketPong nat
  | SocketMessage nat "json option"
  | TimerFires nat

definition timerActive :: "WsManager \<Rightarrow> nat \<Rightarrow> bool" where
  "timerActive m t = (t < length (timers m) \<and> active (timers m ! t))"

fun enabled :: "event \<Rightarrow> WsManager \<Rightarrow> bool" where
  "enabled (DidReceiveGlobalSettings gs) m = True"
| "enabled (Send cmd onError) m = True"
| "enabled (SocketOpen s) m = (readyStateOf m s = Some CONNECTING)"
| "enabled (SocketClose s) m = (s < length (sockets m) \<and> readyStateOf m s \<noteq> Some CLOSED)"
| "enabled (SocketError s) m = (s < length (sockets m))"
| "enabled (SocketPong s) m = (readyStateOf m s = Some OPEN)"
| "enabled (SocketMessage s parsed) m = (readyStateOf m s = Some OPEN)"
| "enabled (TimerFires t) m = timerActive m t"

definition fire :: "nat \<Rightarrow> WsManager \<Rightarrow> WsManager" where
  "fire t m =
     (case kind (timers m ! t) of
        ReconnectTimeout \<Rightarrow> reconnectCallback (clearTimer t m)
      | PingInterval \<Rightarrow> pingCallback m
      | StableTimeout \<Rightarrow> stableCallback (clearTimer t m))"

fun deliver :: "event \<Rightarrow> WsManager \<Rightarrow> WsManager" where
  "deliver (DidReceiveGlobalSettings gs) m = onDidReceiveGlobalSettings gs m"
| "deliver (Send cmd onError) m = snd (send cmd onError m)"
| "deliver (SocketOpen s) m = onOpen (setReadyState s OPEN m)"
| "deliver (SocketClose s) m = onClose (setReadyState s CLOSED m)"
| "deliver (SocketError s) m = m"
| "deliver (SocketPong s) m = onPong m"
| "deliver (SocketMessage s parsed) m = onMessage parsed m"
| "deliver (TimerFires t) m = fire t m"

fun run :: "event list \<Rightarrow> WsManager \<Rightarrow> WsManager option" where
  "run [] m = Some m"
| "run (e # es) m = (if enabled e m then run es (deliver e m) else None)"

section \<open>Notions the properties are stated with\<close>

subsection \<open>The inbound shapes, as the specification words them\<close>

text \<open>
  The specification names four recognized shapes of a data payload, tried in this order:
  a liveness acknowledgment, a mute delta of one device (input or output) with a boolean
  \<open>muted\<close>, a full snapshot with boolean \<open>muted\<close>, \<open>deafened\<close> and \<open>recording\<close>, and a
  recording delta with a boolean \<open>recording\<close>. The definitions of this subsection follow
  those words, not the source; \<open>handleMessage\<close> above is the source.
\<close>

datatype shape =
    LivenessAck
  | MuteDelta device bool
  | FullSnapshot bool bool bool
  | RecordingDelta bool
  | Unrecognized

definition spec_device :: "json option \<Rightarrow> device option" where
  "spec_device v =
     (if v = Some (JStr (js ''input'')) then Some Input
      else if v = Some (JStr (js ''output'')) then Some Output
      else None)"

definition spec_recognize :: "json \<Rightarrow> shape" where
  "spec_recognize d =
     (if getProp d (js ''pong'') = Some (JBool True) then LivenessAck
      else case (spec_device (getProp d (js ''device'')), asBoolean (getProp d (js ''muted''))) of
             (Some dev, Some b) \<Rightarrow> MuteDelta dev b
           | _ \<Rightarrow>
             (case (asBoolean (getProp d (js ''muted'')),
                    asBoolean (getProp d (js ''deafened'')),
                    asBoolean (getProp d (js ''recording''))) of
                (Some a, Some b, Some c) \<Rightarrow> FullSnapshot a b c
              | (_, _, Some c) \<Rightarrow> RecordingDelta c
              | _ \<Rightarrow> Unrecognized))"

text \<open>
  A field whose incoming value differs is updated with exactly one notification; a field
  whose incoming value is the current one is left alone, with none.
\<close>

definition spec_setInputMuted :: "bool \<Rightarrow> WsManager \<Rightarrow> WsManager" where
  "spec_setInputMuted b m =
     (if inputMuted (state m) = Some b then m
      else m\<lparr>state := (state m)\<lparr>inputMuted := Some b\<rparr>,
             emitted := emitted m @ [inputMuteChanged (Some b)]\<rparr>)"

definition spec_setOutputMuted :: "bool \<Rightarrow> WsManager \<Rightarrow> WsManager" where
  "spec_setOutputMuted b m =
     (if outputMuted (state m) = Some b then m
      else m\<lparr>state := (state m)\<lparr>outputMuted := Some b\<rparr>,
             emitted := emitted m @ [outputMuteChanged (Some b)]\<rparr>)"

definition spec_setRecording :: "bool \<Rightarrow> WsManager \<Rightarrow> WsManager" where
  "spec_setRecording b m =
     (if recording (state m) = Some b then m
      else m\<lparr>state := (state m)\<lparr>recording := Some b\<rparr>,
             emitted := emitted m @ [recordingChanged (Some b)]\<rparr>)"

text \<open>The notification of a field set to \<open>b\<close>: one when the value differs, none otherwise.\<close>

definition notifyIfChanged :: "bool option \<Rightarrow> bool \<Rightarrow> BvcStateEvent \<Rightarrow> BvcStateEvent list" where
  "notifyIfChanged current b ev = (if current = Some b then [] else [ev])"

fun spec_applyDelta :: "shape \<Rightarrow> WsManager \<Rightarrow> WsManager" where
  "spec_applyDelta LivenessAck m = m"
| "spec_applyDelta (MuteDelta Input b) m = spec_setInputMuted b m"
| "spec_applyDelta (MuteDelta Output b) m = spec_setOutputMuted b m"
| "spec_applyDelta (FullSnapshot a b c) m =
     spec_setRecording c (spec_setOutputMuted b (spec_setInputMuted a m))"
| "spec_applyDelta (RecordingDelta c) m = spec_setRecording c m"
| "spec_applyDelta Unrecognized m = m"

subsection \<open>Sessions, commands and failure responses\<close>

text \<open>
  The socket that the manager holds, when it is OPEN: the only socket that \<^verbatim>\<open>send\<close> and
  the heartbeat write to. It need not be the only open socket, and the manager may hold
  none while a socket is open.
\<close>

definition heldOpenSocket :: "WsManager \<Rightarrow> nat option" where
  "heldOpenSocket m =
     (case ws m of
        None \<Rightarrow> None
      | Some s \<Rightarrow> if readyStateOf m s = Some OPEN then Some s else None)"

text \<open>A run of calls of \<^verbatim>\<open>send\<close>, each with its command and optional failure callback.\<close>

fun sendAll :: "(BvcCommand \<times> callback option) list \<Rightarrow> WsManager \<Rightarrow> WsManager" where
  "sendAll [] m = m"
| "sendAll ((cmd, onError) # cs) m = sendAll cs (snd (send cmd onError m))"

text \<open>A parsed frame that the message handler takes for a failure response.\<close>

definition isFailureResponse :: "json \<Rightarrow> bool" where
  "isFailureResponse msg =
     (truthy msg \<and> typeofObject msg \<and> getProp msg (js ''success'') = Some (JBool False))"

definition callbackList :: "callback option \<Rightarrow> callback list" where
  "callbackList c = (case c of None \<Rightarrow> [] | Some cb \<Rightarrow> [cb])"

text \<open>An event that hands the callback \<open>cb\<close> to \<^verbatim>\<open>send\<close>.\<close>

fun registers :: "callback \<Rightarrow> event \<Rightarrow> bool" where
  "registers cb (Send cmd onError) = (onError = Some cb)"
| "registers cb _ = False"

subsection \<open>Concrete settings, frames and managers\<close>

definition emptySettings :: GlobalSettings where
  "emptySettings = \<lparr>gs_host = Some [], gs_port = Some [], gs_authenticationKey = Some []\<rparr>"

definition otherHostSettings :: GlobalSettings where
  "otherHostSettings =
     \<lparr>gs_host = Some (js ''10.0.0.2''), gs_port = Some (js ''9595''), gs_authenticationKey = None\<rparr>"

definition secretSettings :: GlobalSettings where
  "secretSettings =
     \<lparr>gs_host = None, gs_port = None, gs_authenticationKey = Some (js ''s3cret'')\<rparr>"

definition recordingFrame :: json where
  "recordingFrame = JObj [(js ''data'', JObj [(js ''recording'', JBool True)])]"

definition failureFrame :: json where
  "failureFrame = JObj [(js ''success'', JBool False), (js ''error'', JStr (js ''denied''))]"

text \<open>
  The failure response \<^verbatim>\<open>{"success": false, "error": {"toString": 1}}\<close>, whose error
  field does not convert to a string.
\<close>

definition throwingFailureFrame :: json where
  "throwingFailureFrame =
     JObj [(js ''success'', JBool False), (js ''error'', JObj [(js ''toString'', JNum 1)])]"

definition snapshotFrame :: json where
  "snapshotFrame =
     JObj [(js ''muted'', JBool False), (js ''deafened'', JBool True), (js ''recording'', JBool False)]"

text \<open>The manager once its first connection has opened, without and with a shared secret.\<close>

definition startedManager :: WsManager where
  "startedManager = initialize emptySettings initialManager"

definition connectedManager :: WsManager where
  "connectedManager = deliver (SocketOpen 0) startedManager"

definition secretManager :: WsManager where
  "secretManager = deliver (SocketOpen 0) (initialize secretSettings initialManager)"

text \<open>The connected manager whose store knows all three fields to be true.\<close>

definition allTrueManager :: WsManager where
  "allTrueManager =
     connectedManager\<lparr>state := \<lparr>connected = True, inputMuted = Some True, outputMuted = Some True,
                                   recording = Some True\<rparr>\<rparr>"

text \<open>Two commands in a row, the first with failure callback 1, the second with 2.\<close>

definition twoCommands :: "(BvcCommand \<times> callback option) list" where
  "twoCommands = [(Mute Input, Some 1), (Record, Some 2)]"

text \<open>What may follow them: two failure responses, a pong and a heartbeat tick.\<close>

definition laterEvents :: "event list" where
  "laterEvents =
     [SocketMessage 0 (Some failureFrame), SocketMessage 0 (Some failureFrame), SocketPong 0,
      TimerFires 0]"

text \<open>The same two commands, followed by a failure response.\<close>

definition failureRun :: "json \<Rightarrow> event list" where
  "failureRun frame =
     [Send (Mute Input) (Some 1), Send Record (Some 2), SocketMessage 0 (Some frame)]"

subsection \<open>The effect of the operations on the timers, the sockets and the notifications\<close>

text \<open>The timer list after \<^verbatim>\<open>clearTimeout\<close> or \<^verbatim>\<open>clearInterval\<close> of a handle that may be null.\<close>

definition clearedTimers :: "nat option \<Rightarrow> timer list \<Rightarrow> timer list" where
  "clearedTimers h ts =
     (case h of
        None \<Rightarrow> ts
      | Some t \<Rightarrow> if t < length ts then ts[t := (ts ! t)\<lparr>active := False\<rparr>] else ts)"

text \<open>The socket list after \<^verbatim>\<open>terminate\<close> of a handle that may be null.\<close>

definition terminatedSockets :: "nat option \<Rightarrow> socket list \<Rightarrow> socket list" where
  "terminatedSockets h ss =
     (case h of
        None \<Rightarrow> ss
      | Some s \<Rightarrow>
          if s < length ss \<and> readyState (ss ! s) \<noteq> CLOSED
          then ss[s := (ss ! s)\<lparr>readyState := CLOSING\<rparr>] else ss)"

text \<open>The notifications of \<^verbatim>\<open>setDisconnectedState\<close>: one for each field that is known.\<close>

definition disconnectedEvents :: "BvcState \<Rightarrow> BvcStateEvent list" where
  "disconnectedEvents st =
     (if inputMuted st \<noteq> None then [inputMuteChanged None] else []) @
     (if outputMuted st \<noteq> None then [outputMuteChanged None] else []) @
     (if recording st \<noteq> None then [recordingChanged None] else [])"

text \<open>The state and the notifications after the store is told that the session is gone.\<close>

definition droppedState :: "BvcState \<Rightarrow> BvcState" where
  "droppedState st =
     (if connected st
      then \<lparr>connected = False, inputMuted = None, outputMuted = None, recording = None\<rparr>
      else st)"

definition droppedEvents :: "BvcState \<Rightarrow> BvcStateEvent list" where
  "droppedEvents st =
     (if connected st then connectionChanged False # disconnectedEvents st else [])"

subsection \<open>Consecutive failed connection attempts\<close>

text \<open>The delays of all reconnects scheduled so far, in the order they were scheduled.\<close>

definition scheduledDelays :: "WsManager \<Rightarrow> nat list" where
  "scheduledDelays m = map delay (filter (\<lambda>t. kind t = ReconnectTimeout) (timers m))"

text \<open>A connection attempt is in progress: the manager holds a socket that is CONNECTING.\<close>

definition attemptInProgress :: "WsManager \<Rightarrow> bool" where
  "attemptInProgress m =
     (case ws m of
        None \<Rightarrow> False
      | Some s \<Rightarrow> readyStateOf m s = Some CONNECTING \<and> \<not> intentionalClose m)"

text \<open>
  One failed attempt: the socket the manager holds closes, and the reconnect timer that
  this schedules (the next timer to be created) fires. \<open>None\<close> when the environment cannot
  deliver the two events.
\<close>

definition failedAttempt :: "WsManager \<Rightarrow> WsManager option" where
  "failedAttempt m =
     (case ws m of
        None \<Rightarrow> None
      | Some s \<Rightarrow> run [SocketClose s, TimerFires (length (timers m))] m)"

fun failedAttempts :: "nat \<Rightarrow> WsManager \<Rightarrow> WsManager option" where
  "failedAttempts 0 m = Some m"
| "failedAttempts (Suc n) m =
     (case failedAttempt m of None \<Rightarrow> None | Some m' \<Rightarrow> failedAttempts n m')"

subsection \<open>Port values\<close>

text \<open>
  A numeric port value in the plain sense of the specification's words: a decimal numeral,
  digits only.
\<close>

definition spec_numeric :: "jsstring \<Rightarrow> bool" where
  "spec_numeric p = (p \<noteq> [] \<and> list_all isDigit p)"

definition junkPortSettings :: GlobalSettings where
  "junkPortSettings =
     \<lparr>gs_host = Some (js '' 10.0.0.2 ''), gs_port = Some (js ''80abc''),
      gs_authenticationKey = None\<rparr>"

subsection \<open>A session left open without a handle\<close>

text \<open>
  The first connection opens. The user changes the host, so the manager disconnects,
  which terminates socket 0, and connects to the new host (socket 1). The close event of
  socket 0 arrives next: its handler clears the handle, which by now is that of socket 1,
  and schedules a reconnect (timer 2). Then socket 1 opens. The manager is now connected
  through socket 1, with the heartbeat (timer 3) and the stability timer (timer 4) of that
  session running, and holds no socket. In \<open>strandedPendingTrace\<close> a mute command with
  failure callback 1 is sent on the first connection before the host changes.
\<close>

definition strandedTrace :: "event list" where
  "strandedTrace =
     [SocketOpen 0, DidReceiveGlobalSettings otherHostSettings, SocketClose 0, SocketOpen 1]"

definition strandedManager :: WsManager where
  "strandedManager =
     \<lparr>ws = None, host = js ''10.0.0.2'', port = 9595, authenticationKey = [],
      reconnectTimer = Some 2, pingTimer = Some 3, stableTimer = Some 4, awaitingPong = False,
      backoffAttempts = 1, intentionalClose = False, pendingErrorCallback = None,
      state = \<lparr>connected = True, inputMuted = None, outputMuted = None, recording = None\<rparr>,
      sockets = [\<lparr>readyState = CLOSED, urlHost = js ''127.0.0.1'', urlPort = 9595\<rparr>,
                 \<lparr>readyState = OPEN, urlHost = js ''10.0.0.2'', urlPort = 9595\<rparr>],
      timers = [\<lparr>kind = PingInterval, delay = 15000, active = False\<rparr>,
                \<lparr>kind = StableTimeout, delay = 30000, active = False\<rparr>,
                \<lparr>kind = ReconnectTimeout, delay = 1000, active = True\<rparr>,
                \<lparr>kind = PingInterval, delay = 15000, active = True\<rparr>,
                \<lparr>kind = StableTimeout, delay = 30000, active = True\<rparr>],
      emitted = [connectionChanged True, connectionChanged False, connectionChanged True],
      transmitted = [(0, [(js ''action'', js ''state'')])], pinged = [], invoked = []\<rparr>"



text \<open>
  What follows in \<open>flapTrace\<close>, with the time since socket 1 opened. After 1 s timer 2
  fires and connects (socket 2); socket 2 opens, which starts a second heartbeat and a
  second stability timer (timers 5 and 6) over the handles of the first; sockets 2 and 1
  close, each scheduling a reconnect (timers 7 and 8, of 2 s and 4 s). From then on no
  session opens: every attempt fails at once. Timer 7 fires after 3 s (socket 3, timer 9
  of 8 s), timer 8 after 5 s (socket 4, timer 10 of 16 s), timer 9 after 11 s (socket 5,
  timer 11 of 30 s), timer 10 after 21 s (socket 6, timer 12 of 30 s); the heartbeat of
  socket 1 ticks after 15 s and 30 s. That is \<open>flapFailures\<close>. After 30 s timer 4, the
  stability timer of socket 1, fires; after 41 s timer 11 fires (socket 7), and that
  attempt fails too.
\<close>

definition flapFailures :: "event list" where
  "flapFailures =
     [TimerFires 2, SocketOpen 2, SocketClose 2, SocketClose 1,
      TimerFires 7, SocketClose 3, TimerFires 8, SocketClose 4,
      TimerFires 9, SocketClose 5, TimerFires 3, TimerFires 10, SocketClose 6, TimerFires 3]"

definition flapTrace :: "event list" where
  "flapTrace = strandedTrace @ flapFailures @ [TimerFires 4, TimerFires 11, SocketClose 7]"

subsection \<open>Two runs of the event loop\<close>

text \<open>
  The first connection opens. The user changes the host, so the manager disconnects and
  connects to the new host (socket 1). The close event of the terminated socket 0 arrives
  next and schedules a reconnect (timer 2). Then:

  \<^item> in \<open>supersedingPrefix\<close>, the attempt of socket 1 fails, which schedules another
    reconnect (timer 3) over the pending one; timer 2 fires and connects (socket 2) while
    timer 3 is still pending;
  \<^item> in \<open>staleCloseTrace\<close>, socket 1 opens; timer 2 fires and connects again (socket 2),
    that attempt fails, and the server then sends a recording update on socket 1, which
    is still open.
\<close>

definition supersedingPrefix :: "event list" where
  "supersedingPrefix =
     [SocketOpen 0, DidReceiveGlobalSettings otherHostSettings, SocketClose 0, SocketClose 1,
      TimerFires 2]"

definition staleTimerManager :: WsManager where
  "staleTimerManager =
     \<lparr>ws = Some 2, host = js ''10.0.0.2'', port = 9595, authenticationKey = [],
      reconnectTimer = None, pingTimer = None, stableTimer = None, awaitingPong = False,
      backoffAttempts = 2, intentionalClose = False, pendingErrorCallback = None,
      state = \<lparr>connected = False, inputMuted = None, outputMuted = None, recording = None\<rparr>,
      sockets = [\<lparr>readyState = CLOSED, urlHost = js ''127.0.0.1'', urlPort = 9595\<rparr>,
                 \<lparr>readyState = CLOSED, urlHost = js ''10.0.0.2'', urlPort = 9595\<rparr>,
                 \<lparr>readyState = CONNECTING, urlHost = js ''10.0.0.2'', urlPort = 9595\<rparr>],
      timers = [\<lparr>kind = PingInterval, delay = 15000, active = False\<rparr>,
                \<lparr>kind = StableTimeout, delay = 30000, active = False\<rparr>,
                \<lparr>kind = ReconnectTimeout, delay = 1000, active = False\<rparr>,
                \<lparr>kind = ReconnectTimeout, delay = 2000, active = True\<rparr>],
      emitted = [connectionChanged True, connectionChanged False],
      transmitted = [(0, [(js ''action'', js ''state'')])], pinged = [], invoked = []\<rparr>"

definition staleCloseTrace :: "event list" where
  "staleCloseTrace =
     [SocketOpen 0, DidReceiveGlobalSettings otherHostSettings, SocketClose 0, SocketOpen 1,
      TimerFires 2, SocketClose 2, SocketMessage 1 (Some recordingFrame)]"

subsection \<open>The disconnected state\<close>

text \<open>While the store is not connected, the three tri-state fields are unknown.\<close>

definition disconnectedUnknown :: "WsManager \<Rightarrow> bool" where
  "disconnectedUnknown m =
     (connected (state m) \<or>
      (inputMuted (state m) = None \<and> outputMuted (state m) = None \<and> recording (state m) = None))"

fun isInboundFrame :: "event \<Rightarrow> bool" where
  "isInboundFrame (SocketMessage s parsed) = True"
| "isInboundFrame _ = False"

section \<open>Evaluating the model\<close>

lemmas model_defs =
  initialize_def applySettings_def connect_def disconnect_def resolveHost_def resolvePort_def
  resolveKey_def trim_def newWebSocket_def Let_def js_def onOpen_def onClose_def onPong_def
  onMessage_def handleMessage_def send_def payload_def setConnected_def setDisconnectedState_def
  emit_def scheduleReconnect_def reconnectDelay_def startPing_def stopPing_def
  startStableTimer_def stopStableTimer_def setTimer_def clearTimer_def terminate_def
  setReadyState_def readyStateOf_def reconnectCallback_def pingCallback_def stableCallback_def
  onDidReceiveGlobalSettings_def fire_def timerActive_def DEFAULT_HOST_def DEFAULT_PORT_def
  RECONNECT_BASE_MS_def RECONNECT_MAX_MS_def PING_INTERVAL_MS_def STABLE_THRESHOLD_MS_def
  parseInt_def isWhiteSpace_def isDigit_def digitValue_def decimalValue_def errorLogThrows_def

lemma startedManager_eq:
  "startedManager =
     \<lparr>ws = Some 0, host = js ''127.0.0.1'', port = 9595, authenticationKey = [],
      reconnectTimer = None, pingTimer = None, stableTimer = None, awaitingPong = False,
      backoffAttempts = 0, intentionalClose = False, pendingErrorCallback = None,
      state = \<lparr>connected = False, inputMuted = None, outputMuted = None, recording = None\<rparr>,
      sockets = [\<lparr>readyState = CONNECTING, urlHost = js ''127.0.0.1'', urlPort = 9595\<rparr>],
      timers = [], emitted = [], transmitted = [], pinged = [], invoked = []\<rparr>"
  by (simp add: model_defs startedManager_def emptySettings_def initialManager_def
      cong: let_weak_cong prod.case_cong_weak)

lemma run_append:
  "run (es @ es') m = (case run es m of None \<Rightarrow> None | Some m' \<Rightarrow> run es' m')"
  by (induction es arbitrary: m) simp_all

lemma strandedTrace_run: "run strandedTrace startedManager = Some strandedManager"
  unfolding strandedTrace_def startedManager_eq strandedManager_def otherHostSettings_def
  by (simp add: model_defs cong: let_weak_cong prod.case_cong_weak)


lemma connectedManager_eq:
  "connectedManager =
     \<lparr>ws = Some 0, host = js ''127.0.0.1'', port = 9595, authenticationKey = [],
      reconnectTimer = None, pingTimer = Some 0, stableTimer = Some 1, awaitingPong = False,
      backoffAttempts = 0, intentionalClose = False, pendingErrorCallback = None,
      state = \<lparr>connected = True, inputMuted = None, outputMuted = None, recording = None\<rparr>,
      sockets = [\<lparr>readyState = OPEN, urlHost = js ''127.0.0.1'', urlPort = 9595\<rparr>],
      timers = [\<lparr>kind = PingInterval, delay = 15000, active = True\<rparr>,
                \<lparr>kind = StableTimeout, delay = 30000, active = True\<rparr>],
      emitted = [connectionChanged True],
      transmitted = [(0, [(js ''action'', js ''state'')])], pinged = [], invoked = []\<rparr>"
  by (simp add: model_defs connectedManager_def startedManager_def emptySettings_def
      initialManager_def cong: let_weak_cong prod.case_cong_weak)

lemma secretManager_eq:
  "secretManager =
     \<lparr>ws = Some 0, host = js ''127.0.0.1'', port = 9595, authenticationKey = js ''s3cret'',
      reconnectTimer = None, pingTimer = Some 0, stableTimer = Some 1, awaitingPong = False,
      backoffAttempts = 0, intentionalClose = False, pendingErrorCallback = None,
      state = \<lparr>connected = True, inputMuted = None, outputMuted = None, recording = None\<rparr>,
      sockets = [\<lparr>readyState = OPEN, urlHost = js ''127.0.0.1'', urlPort = 9595\<rparr>],
      timers = [\<lparr>kind = PingInterval, delay = 15000, active = True\<rparr>,
                \<lparr>kind = StableTimeout, delay = 30000, active = True\<rparr>],
      emitted = [connectionChanged True],
      transmitted = [(0, [(js ''action'', js ''state''), (js ''key'', js ''s3cret'')])],
      pinged = [], invoked = []\<rparr>"
  by (simp add: model_defs secretManager_def secretSettings_def initialManager_def
      cong: let_weak_cong prod.case_cong_weak)

lemma heldOpenSocket_initialManager: "heldOpenSocket initialManager = None"
  by (simp add: heldOpenSocket_def initialManager_def)

lemma heldOpenSocket_connectedManager: "heldOpenSocket connectedManager = Some 0"
  by (simp add: heldOpenSocket_def connectedManager_eq readyStateOf_def)

lemma heldOpenSocket_secretManager: "heldOpenSocket secretManager = Some 0"
  by (simp add: heldOpenSocket_def secretManager_eq readyStateOf_def)

section \<open>Each operation as one update of the manager\<close>

lemma length_clearedTimers [simp]: "length (clearedTimers h ts) = length ts"
  by (simp add: clearedTimers_def split: option.splits)

lemma length_terminatedSockets [simp]: "length (terminatedSockets h ss) = length ss"
  by (simp add: terminatedSockets_def split: option.splits)

lemma clearTimer_eq: "clearTimer t m = m\<lparr>timers := clearedTimers (Some t) (timers m)\<rparr>"
  by (simp add: clearTimer_def clearedTimers_def)

lemma terminate_eq: "terminate s m = m\<lparr>sockets := terminatedSockets (Some s) (sockets m)\<rparr>"
  by (simp add: terminate_def setReadyState_def readyStateOf_def terminatedSockets_def)

lemma stopPing_eq:
  "stopPing m = m\<lparr>timers := clearedTimers (pingTimer m) (timers m), pingTimer := None,
                   awaitingPong := False\<rparr>"
  by (cases "pingTimer m") (simp_all add: stopPing_def clearTimer_eq clearedTimers_def)

lemma stopStableTimer_eq:
  "stopStableTimer m = m\<lparr>timers := clearedTimers (stableTimer m) (timers m), stableTimer := None\<rparr>"
  by (cases "stableTimer m") (simp_all add: stopStableTimer_def clearTimer_eq clearedTimers_def)

lemma startPing_eq:
  "startPing m = m\<lparr>awaitingPong := False,
                    timers := timers m @ [\<lparr>kind = PingInterval, delay = 15000, active = True\<rparr>],
                    pingTimer := Some (length (timers m))\<rparr>"
  by (simp add: startPing_def setTimer_def PING_INTERVAL_MS_def)

lemma startStableTimer_eq:
  "startStableTimer m =
     m\<lparr>timers := timers m @ [\<lparr>kind = StableTimeout, delay = 30000, active = True\<rparr>],
       stableTimer := Some (length (timers m))\<rparr>"
  by (simp add: startStableTimer_def setTimer_def STABLE_THRESHOLD_MS_def)

lemma scheduleReconnect_eq:
  "scheduleReconnect m =
     m\<lparr>backoffAttempts := backoffAttempts m + 1,
       timers := timers m @ [\<lparr>kind = ReconnectTimeout, delay = reconnectDelay (backoffAttempts m),
                               active = True\<rparr>],
       reconnectTimer := Some (length (timers m))\<rparr>"
  by (simp add: scheduleReconnect_def setTimer_def)

lemma setConnected_eq:
  "setConnected c m = m\<lparr>state := (state m)\<lparr>connected := c\<rparr>,
                         emitted := emitted m @ [connectionChanged c]\<rparr>"
  by (simp add: setConnected_def emit_def)

lemma setDisconnectedState_eq:
  "setDisconnectedState m =
     m\<lparr>state := (state m)\<lparr>inputMuted := None, outputMuted := None, recording := None\<rparr>,
       emitted := emitted m @ disconnectedEvents (state m)\<rparr>"
  by (cases "inputMuted (state m)"; cases "outputMuted (state m)"; cases "recording (state m)")
     (simp_all add: setDisconnectedState_def emit_def disconnectedEvents_def)

lemma dropped_eq:
  "(if connected (state m) then setDisconnectedState (setConnected False m) else m) =
     m\<lparr>state := droppedState (state m), emitted := emitted m @ droppedEvents (state m)\<rparr>"
  by (simp add: setDisconnectedState_eq setConnected_eq droppedState_def droppedEvents_def
      disconnectedEvents_def)

lemma clearReconnect_eq:
  "(case reconnectTimer m of Some t \<Rightarrow> (clearTimer t m)\<lparr>reconnectTimer := None\<rparr> | None \<Rightarrow> m) =
     m\<lparr>timers := clearedTimers (reconnectTimer m) (timers m), reconnectTimer := None\<rparr>"
  by (cases "reconnectTimer m") (simp_all add: clearTimer_eq clearedTimers_def)

lemma terminateCurrent_eq:
  "(case ws m of Some s \<Rightarrow> (terminate s m)\<lparr>ws := None\<rparr> | None \<Rightarrow> m) =
     m\<lparr>sockets := terminatedSockets (ws m) (sockets m), ws := None\<rparr>"
  by (cases "ws m") (simp_all add: terminate_eq terminatedSockets_def)

lemma terminatePrevious_eq:
  "(case ws m of Some s \<Rightarrow> (terminate s (m\<lparr>intentionalClose := True\<rparr>))\<lparr>ws := None\<rparr> | None \<Rightarrow> m)
     \<lparr>intentionalClose := False\<rparr> =
     m\<lparr>sockets := terminatedSockets (ws m) (sockets m), ws := None, intentionalClose := False\<rparr>"
  by (cases "ws m") (simp_all add: terminate_eq terminatedSockets_def)

lemma connect_eq:
  "connect m =
     m\<lparr>timers := clearedTimers (reconnectTimer m) (timers m), reconnectTimer := None,
       intentionalClose := False,
       sockets := terminatedSockets (ws m) (sockets m)
                  @ [\<lparr>readyState = CONNECTING, urlHost = host m, urlPort = port m\<rparr>],
       ws := Some (length (sockets m))\<rparr>"
  unfolding connect_def Let_def clearReconnect_eq terminatePrevious_eq
  by (simp add: newWebSocket_def)

lemma disconnect_eq:
  "disconnect m =
     m\<lparr>intentionalClose := True,
       timers := clearedTimers (stableTimer m) (clearedTimers (pingTimer m)
                   (clearedTimers (reconnectTimer m) (timers m))),
       reconnectTimer := None, pingTimer := None, awaitingPong := False, stableTimer := None,
       sockets := terminatedSockets (ws m) (sockets m), ws := None,
       state := droppedState (state m), emitted := emitted m @ droppedEvents (state m)\<rparr>"
  unfolding disconnect_def Let_def clearReconnect_eq terminateCurrent_eq stopPing_eq
    stopStableTimer_eq dropped_eq
  by simp

lemma onClose_eq:
  "onClose m =
     (if intentionalClose m
      then m\<lparr>timers := clearedTimers (stableTimer m) (clearedTimers (pingTimer m) (timers m)),
             pingTimer := None, awaitingPong := False, stableTimer := None, ws := None,
             state := droppedState (state m), emitted := emitted m @ droppedEvents (state m)\<rparr>
      else m\<lparr>timers := clearedTimers (stableTimer m) (clearedTimers (pingTimer m) (timers m))
                       @ [\<lparr>kind = ReconnectTimeout, delay = reconnectDelay (backoffAttempts m),
                           active = True\<rparr>],
             pingTimer := None, awaitingPong := False, stableTimer := None, ws := None,
             state := droppedState (state m), emitted := emitted m @ droppedEvents (state m),
             backoffAttempts := backoffAttempts m + 1,
             reconnectTimer := Some (length (timers m))\<rparr>)"
  by (simp add: onClose_def stopPing_eq stopStableTimer_eq dropped_eq scheduleReconnect_eq)

section \<open>Inbound payloads\<close>

lemma js_input_neq_output: "js ''input'' \<noteq> js ''output''"
  by (simp add: js_def)

lemma setInputMuted_code:
  "(if inputMuted (state m) \<noteq> Some b
    then emit (inputMuteChanged (Some b)) (m\<lparr>state := (state m)\<lparr>inputMuted := Some b\<rparr>\<rparr>)
    else m) = spec_setInputMuted b m"
  by (simp add: spec_setInputMuted_def emit_def)

lemma setOutputMuted_code:
  "(if outputMuted (state m) \<noteq> Some b
    then emit (outputMuteChanged (Some b)) (m\<lparr>state := (state m)\<lparr>outputMuted := Some b\<rparr>\<rparr>)
    else m) = spec_setOutputMuted b m"
  by (simp add: spec_setOutputMuted_def emit_def)

lemma setRecording_code:
  "(if recording (state m) \<noteq> Some b
    then emit (recordingChanged (Some b)) (m\<lparr>state := (state m)\<lparr>recording := Some b\<rparr>\<rparr>)
    else m) = spec_setRecording b m"
  by (simp add: spec_setRecording_def emit_def)

lemma handleMessage_setters:
  "handleMessage d m =
     (if getProp d (js ''pong'') = Some (JBool True) then m
      else if getProp d (js ''device'') = Some (JStr (js ''input'')) \<and>
              asBoolean (getProp d (js ''muted'')) \<noteq> None
      then (case asBoolean (getProp d (js ''muted'')) of
              None \<Rightarrow> m | Some muted \<Rightarrow> spec_setInputMuted muted m)
      else if getProp d (js ''device'') = Some (JStr (js ''output'')) \<and>
              asBoolean (getProp d (js ''muted'')) \<noteq> None
      then (case asBoolean (getProp d (js ''muted'')) of
              None \<Rightarrow> m | Some muted \<Rightarrow> spec_setOutputMuted muted m)
      else if asBoolean (getProp d (js ''muted'')) \<noteq> None \<and>
              asBoolean (getProp d (js ''deafened'')) \<noteq> None \<and>
              asBoolean (getProp d (js ''recording'')) \<noteq> None
      then (case (asBoolean (getProp d (js ''muted'')),
                  asBoolean (getProp d (js ''deafened'')),
                  asBoolean (getProp d (js ''recording''))) of
              (Some muted, Some deafened, Some rec) \<Rightarrow>
                spec_setRecording rec (spec_setOutputMuted deafened (spec_setInputMuted muted m))
            | _ \<Rightarrow> m)
      else (case asBoolean (getProp d (js ''recording'')) of
              Some rec \<Rightarrow> spec_setRecording rec m
            | None \<Rightarrow> m))"
  unfolding handleMessage_def Let_def setInputMuted_code setOutputMuted_code setRecording_code
  by (rule refl)

lemma handleMessage_refines: "handleMessage d m = spec_applyDelta (spec_recognize d) m"
  by (cases "asBoolean (getProp d (js ''muted''))";
      cases "asBoolean (getProp d (js ''deafened''))";
      cases "asBoolean (getProp d (js ''recording''))")
     (simp_all add: handleMessage_setters spec_recognize_def spec_device_def js_input_neq_output)

lemma spec_setInputMuted_state:
  "state (spec_setInputMuted b m) = (state m)\<lparr>inputMuted := Some b\<rparr>"
  by (simp add: spec_setInputMuted_def)

lemma spec_setOutputMuted_state:
  "state (spec_setOutputMuted b m) = (state m)\<lparr>outputMuted := Some b\<rparr>"
  by (simp add: spec_setOutputMuted_def)

lemma spec_setRecording_state:
  "state (spec_setRecording b m) = (state m)\<lparr>recording := Some b\<rparr>"
  by (simp add: spec_setRecording_def)

lemma spec_setInputMuted_same: "inputMuted (state m) = Some b \<Longrightarrow> spec_setInputMuted b m = m"
  by (simp add: spec_setInputMuted_def)

lemma spec_setOutputMuted_same: "outputMuted (state m) = Some b \<Longrightarrow> spec_setOutputMuted b m = m"
  by (simp add: spec_setOutputMuted_def)

lemma spec_setRecording_same: "recording (state m) = Some b \<Longrightarrow> spec_setRecording b m = m"
  by (simp add: spec_setRecording_def)

lemmas spec_set_state = spec_setInputMuted_state spec_setOutputMuted_state spec_setRecording_state

lemmas spec_set_same = spec_setInputMuted_same spec_setOutputMuted_same spec_setRecording_same

lemma spec_applyDelta_idem: "spec_applyDelta sh (spec_applyDelta sh m) = spec_applyDelta sh m"
proof (cases "(sh, m)" rule: spec_applyDelta.cases)
  case (4 a b c m')
  let ?m = "spec_setRecording c (spec_setOutputMuted b (spec_setInputMuted a m))"
  have "spec_setInputMuted a ?m = ?m"
    by (rule spec_setInputMuted_same) (simp add: spec_set_state)
  moreover have "spec_setOutputMuted b ?m = ?m"
    by (rule spec_setOutputMuted_same) (simp add: spec_set_state)
  moreover have "spec_setRecording c ?m = ?m"
    by (rule spec_setRecording_same) (simp add: spec_set_state)
  ultimately show ?thesis using 4 by simp
qed (simp_all add: spec_set_same spec_set_state)

lemma spec_setInputMuted_emitted:
  "emitted (spec_setInputMuted b m)
     = emitted m @ notifyIfChanged (inputMuted (state m)) b (inputMuteChanged (Some b))"
  by (simp add: spec_setInputMuted_def notifyIfChanged_def)

lemma spec_setOutputMuted_emitted:
  "emitted (spec_setOutputMuted b m)
     = emitted m @ notifyIfChanged (outputMuted (state m)) b (outputMuteChanged (Some b))"
  by (simp add: spec_setOutputMuted_def notifyIfChanged_def)

lemma spec_setRecording_emitted:
  "emitted (spec_setRecording b m)
     = emitted m @ notifyIfChanged (recording (state m)) b (recordingChanged (Some b))"
  by (simp add: spec_setRecording_def notifyIfChanged_def)

lemmas spec_set_emitted =
  spec_setInputMuted_emitted spec_setOutputMuted_emitted spec_setRecording_emitted

text \<open>
  C5. The State Store matches an inbound data payload against the recognized shapes in
  priority order (liveness acknowledgment; mute delta of the input or the output device
  with a boolean \<open>muted\<close>; full snapshot; recording delta) and applies exactly the first
  match: \<open>handleMessage\<close> is \<open>spec_applyDelta\<close> of the shape \<open>spec_recognize\<close> finds. A
  liveness acknowledgment and an unrecognized payload change nothing; a mute delta sets
  the field of its device only, a recording delta the recording only, a full snapshot
  the three fields; each field set notifies once when its value differs and not at all
  otherwise, in the order input mute, output mute, recording.
\<close>

theorem handleMessage_applies_first_matching_shape:
  "handleMessage d m = spec_applyDelta (spec_recognize d) m \<and>
   (spec_recognize d = LivenessAck \<or> spec_recognize d = Unrecognized \<longrightarrow> handleMessage d m = m) \<and>
   (\<forall>b. spec_recognize d = MuteDelta Input b \<longrightarrow>
      state (handleMessage d m) = (state m)\<lparr>inputMuted := Some b\<rparr> \<and>
      emitted (handleMessage d m)
        = emitted m @ notifyIfChanged (inputMuted (state m)) b (inputMuteChanged (Some b))) \<and>
   (\<forall>b. spec_recognize d = MuteDelta Output b \<longrightarrow>
      state (handleMessage d m) = (state m)\<lparr>outputMuted := Some b\<rparr> \<and>
      emitted (handleMessage d m)
        = emitted m @ notifyIfChanged (outputMuted (state m)) b (outputMuteChanged (Some b))) \<and>
   (\<forall>a b c. spec_recognize d = FullSnapshot a b c \<longrightarrow>
      state (handleMessage d m)
        = (state m)\<lparr>inputMuted := Some a, outputMuted := Some b, recording := Some c\<rparr> \<and>
      emitted (handleMessage d m)
        = emitted m @ notifyIfChanged (inputMuted (state m)) a (inputMuteChanged (Some a))
            @ notifyIfChanged (outputMuted (state m)) b (outputMuteChanged (Some b))
            @ notifyIfChanged (recording (state m)) c (recordingChanged (Some c))) \<and>
   (\<forall>c. spec_recognize d = RecordingDelta c \<longrightarrow>
      state (handleMessage d m) = (state m)\<lparr>recording := Some c\<rparr> \<and>
      emitted (handleMessage d m)
        = emitted m @ notifyIfChanged (recording (state m)) c (recordingChanged (Some c)))"
proof (cases "spec_recognize d")
  case LivenessAck
  then show ?thesis by (simp add: handleMessage_refines)
next
  case (MuteDelta dev b)
  then show ?thesis
    by (cases dev) (simp_all add: handleMessage_refines spec_set_state spec_set_emitted)
next
  case (FullSnapshot a b c)
  then show ?thesis
    by (simp add: handleMessage_refines spec_set_state spec_set_emitted)
next
  case (RecordingDelta c)
  then show ?thesis
    by (simp add: handleMessage_refines spec_set_state spec_set_emitted)
next
  case Unrecognized
  then show ?thesis by (simp add: handleMessage_refines)
qed

text \<open>
  The scenario of the specification: the full snapshot \<open>{muted: false, deafened: true,
  recording: false}\<close> on the state \<open>{true, true, true}\<close> notifies the input mute and the
  recording, not the output mute.
\<close>

theorem handleMessage_applies_first_matching_shape_witness:
  "state (handleMessage snapshotFrame allTrueManager)
     = \<lparr>connected = True, inputMuted = Some False, outputMuted = Some True, recording = Some False\<rparr> \<and>
   emitted (handleMessage snapshotFrame allTrueManager)
     = emitted allTrueManager @ [inputMuteChanged (Some False), recordingChanged (Some False)]"
proof -
  have sh: "spec_recognize snapshotFrame = FullSnapshot False True False"
    by (simp add: spec_recognize_def spec_device_def snapshotFrame_def js_def)
  have st: "state allTrueManager
      = \<lparr>connected = True, inputMuted = Some True, outputMuted = Some True, recording = Some True\<rparr>"
    by (simp add: allTrueManager_def)
  from handleMessage_applies_first_matching_shape [of snapshotFrame allTrueManager] sh
  have "state (handleMessage snapshotFrame allTrueManager)
        = (state allTrueManager)\<lparr>inputMuted := Some False, outputMuted := Some True,
                                   recording := Some False\<rparr> \<and>
      emitted (handleMessage snapshotFrame allTrueManager)
        = emitted allTrueManager
            @ notifyIfChanged (inputMuted (state allTrueManager)) False (inputMuteChanged (Some False))
            @ notifyIfChanged (outputMuted (state allTrueManager)) True (outputMuteChanged (Some True))
            @ notifyIfChanged (recording (state allTrueManager)) False (recordingChanged (Some False))"
    by blast
  then show ?thesis
    by (simp add: st notifyIfChanged_def)
qed

text \<open>
  Another scenario of the specification: an input mute delta on a state whose input was
  not muted notifies once and leaves the other two fields alone.
\<close>

lemma input_delta_scenario:
  assumes "inputMuted (state m) = Some False"
  shows "handleMessage (JObj [(js ''device'', JStr (js ''input'')), (js ''muted'', JBool True)]) m
         = m\<lparr>state := (state m)\<lparr>inputMuted := Some True\<rparr>,
              emitted := emitted m @ [inputMuteChanged (Some True)]\<rparr>"
  using assms
  by (simp add: handleMessage_setters js_def spec_setInputMuted_def)

text \<open>
  C6. Applying the same data payload twice in a row changes nothing the second time:
  the state after both applications is the state after the first, and the second
  application emits no notification.
\<close>

theorem handleMessage_twice:
  "handleMessage d (handleMessage d m) = handleMessage d m \<and>
   state (handleMessage d (handleMessage d m)) = state (handleMessage d m) \<and>
   emitted (handleMessage d (handleMessage d m)) = emitted (handleMessage d m)"
  by (simp add: handleMessage_refines spec_applyDelta_idem)

section \<open>Sending commands\<close>

lemma map_of_commandFields_key: "map_of (commandFields cmd) (js ''key'') = None"
  by (cases cmd rule: commandFields.cases) (simp_all add: js_def)

lemma commandFields_no_key: "filter (\<lambda>p. fst p \<noteq> js ''key'') (commandFields cmd) = commandFields cmd"
  by (cases cmd rule: commandFields.cases) (simp_all add: js_def)

lemma payload_key:
  "map_of (payload cmd k) (js ''key'') = (if k = [] then None else Some k)"
  by (simp add: payload_def map_add_def map_of_commandFields_key)

lemma payload_command:
  "filter (\<lambda>p. fst p \<noteq> js ''key'') (payload cmd k) = commandFields cmd"
  by (simp add: payload_def commandFields_no_key)

lemma send_closed: "heldOpenSocket m = None \<Longrightarrow> send cmd onError m = (False, m)"
  by (cases "ws m") (simp_all add: heldOpenSocket_def send_def split: if_splits)

lemma send_open:
  "heldOpenSocket m = Some s \<Longrightarrow>
   send cmd onError m =
     (True, m\<lparr>pendingErrorCallback := onError,
              transmitted := transmitted m @ [(s, payload cmd (authenticationKey m))]\<rparr>)"
  by (cases "ws m") (simp_all add: heldOpenSocket_def send_def split: if_splits)

text \<open>
  What \<^verbatim>\<open>send\<close> does in terms of the socket that the manager holds: it returns false
  and changes nothing, so transmits nothing, when the manager holds no socket or one that
  is not open. Otherwise it returns true and hands exactly one frame to that socket: the
  command's own fields, with the field \<open>key\<close> holding the shared secret exactly when the
  secret is not empty.
\<close>

lemma send_contract:
  "(heldOpenSocket m = None \<longrightarrow> send cmd onError m = (False, m)) \<and>
   (\<forall>s. heldOpenSocket m = Some s \<longrightarrow>
      fst (send cmd onError m) = True \<and>
      transmitted (snd (send cmd onError m))
        = transmitted m @ [(s, payload cmd (authenticationKey m))] \<and>
      map_of (payload cmd (authenticationKey m)) (js ''key'')
        = (if authenticationKey m = [] then None else Some (authenticationKey m)) \<and>
      filter (\<lambda>p. fst p \<noteq> js ''key'') (payload cmd (authenticationKey m)) = commandFields cmd)"
  by (simp add: send_closed send_open payload_key payload_command)

lemma send_contract_example:
  "send Record (Some 7) initialManager = (False, initialManager) \<and>
   fst (send Record (Some 7) connectedManager) = True \<and>
   transmitted (snd (send Record (Some 7) connectedManager))
     = transmitted connectedManager @ [(0, [(js ''action'', js ''record'')])] \<and>
   fst (send (Mute Input) None secretManager) = True \<and>
   transmitted (snd (send (Mute Input) None secretManager))
     = transmitted secretManager
       @ [(0, [(js ''action'', js ''mute''), (js ''device'', js ''input''), (js ''key'', js ''s3cret'')])]"
proof -
  note closed = send_contract [of initialManager Record "Some 7", THEN conjunct1, THEN mp,
      OF heldOpenSocket_initialManager]
  note plain = send_contract [of connectedManager Record "Some 7", THEN conjunct2,
      THEN spec [where x = 0], THEN mp, OF heldOpenSocket_connectedManager]
  note secret = send_contract [of secretManager "Mute Input" None, THEN conjunct2,
      THEN spec [where x = 0], THEN mp, OF heldOpenSocket_secretManager]
  have k0: "authenticationKey connectedManager = []"
    by (simp add: connectedManager_eq)
  have k1: "authenticationKey secretManager = js ''s3cret''"
    by (simp add: secretManager_eq)
  have p0: "payload Record [] = [(js ''action'', js ''record'')]"
    by (simp add: payload_def)
  have p1: "payload (Mute Input) (js ''s3cret'')
            = [(js ''action'', js ''mute''), (js ''device'', js ''input''), (js ''key'', js ''s3cret'')]"
    by (simp add: payload_def js_def)
  from closed plain [unfolded k0 p0] secret [unfolded k1 p1] show ?thesis
    by blast
qed

text \<open>
  C3 says that \<^verbatim>\<open>send\<close> returns false and transmits nothing whenever no session is
  open, and otherwise transmits exactly one frame and returns true. The code does not
  test whether a session is open but whether the manager holds an open socket, and the
  two differ. After the run \<open>strandedTrace\<close> socket 1 is open and the store says
  connected, yet the manager holds no socket, because the close handler of the superseded
  socket 0 cleared the handle. There every \<^verbatim>\<open>send\<close>, whatever the command and the
  callback, returns false and leaves the manager as it is, so transmits nothing.
\<close>

theorem send_refused_on_open_session:
  "map_option (\<lambda>m. (readyStateOf m 1, connected (state m), ws m,
                     send cmd onError m = (False, m),
                     transmitted (snd (send cmd onError m)) = transmitted m))
     (run strandedTrace startedManager)
   = Some (Some OPEN, True, None, True, True)"
  by (simp add: strandedTrace_run strandedManager_def readyStateOf_def send_def)

lemma onMessage_failure:
  "isFailureResponse msg \<Longrightarrow> \<not> errorLogThrows msg \<Longrightarrow>
   onMessage (Some msg) m =
     m\<lparr>invoked := invoked m @ callbackList (pendingErrorCallback m), pendingErrorCallback := None\<rparr>"
  by (cases "pendingErrorCallback m") (simp_all add: isFailureResponse_def onMessage_def callbackList_def)

lemma onMessage_failure_throws:
  "isFailureResponse msg \<Longrightarrow> errorLogThrows msg \<Longrightarrow> onMessage (Some msg) m = m"
  by (simp add: isFailureResponse_def onMessage_def)

lemma isFailureResponse_failureFrame: "isFailureResponse failureFrame"
  by (simp add: isFailureResponse_def failureFrame_def js_def)

lemma failureFrame_converts: "\<not> errorLogThrows failureFrame"
  by (simp add: errorLogThrows_def failureFrame_def js_def)




lemma send_refused_iff: "fst (send cmd onError m) = False \<longleftrightarrow> heldOpenSocket m = None"
  by (cases "ws m") (simp_all add: send_def heldOpenSocket_def)




section \<open>Heartbeat\<close>

lemma pingCallback_outstanding:
  "ws m = Some s \<Longrightarrow> awaitingPong m \<Longrightarrow> pingCallback m = terminate s m"
  by (simp add: pingCallback_def)

lemma pingCallback_probe:
  "heldOpenSocket m = Some s \<Longrightarrow> \<not> awaitingPong m \<Longrightarrow>
   pingCallback m = m\<lparr>awaitingPong := True, pinged := pinged m @ [s]\<rparr>"
  by (cases "ws m") (simp_all add: pingCallback_def heldOpenSocket_def split: if_splits)

lemma heldOpenSocket_ws: "heldOpenSocket m = Some s \<Longrightarrow> ws m = Some s"
  by (cases "ws m") (simp_all add: heldOpenSocket_def split: if_splits)

lemma heldOpenSocket_readyState: "heldOpenSocket m = Some s \<Longrightarrow> readyStateOf m s = Some OPEN"
  by (cases "ws m") (simp_all add: heldOpenSocket_def split: if_splits)

lemma readyStateOf_length: "readyStateOf m s = Some r \<Longrightarrow> s < length (sockets m)"
  by (simp add: readyStateOf_def split: if_splits)

lemma terminate_open:
  "readyStateOf m s = Some OPEN \<Longrightarrow>
   terminate s m = m\<lparr>sockets := (sockets m)[s := (sockets m ! s)\<lparr>readyState := CLOSING\<rparr>]\<rparr>"
  by (frule readyStateOf_length) (simp add: terminate_def setReadyState_def)

lemma fire_ping: "kind (timers m ! t) = PingInterval \<Longrightarrow> deliver (TimerFires t) m = pingCallback m"
  by (simp add: fire_def)

lemma startPing_timer:
  "pingTimer (startPing m) = Some (length (timers m)) \<and>
   timers (startPing m) = timers m @ [\<lparr>kind = PingInterval, delay = 15000, active = True\<rparr>] \<and>
   awaitingPong (startPing m) = False"
  by (simp add: startPing_def setTimer_def PING_INTERVAL_MS_def)

lemma readyStateOf_terminate:
  "readyStateOf m s = Some OPEN \<Longrightarrow> readyStateOf (terminate s m) s = Some CLOSING"
  by (frule readyStateOf_length)
     (simp add: terminate_eq terminatedSockets_def readyStateOf_def split: if_splits)

lemma deliver_close_eq: "deliver (SocketClose s) m = onClose (setReadyState s CLOSED m)"
  by simp

lemma setReadyState_fields:
  "timers (setReadyState s r m) = timers m \<and> backoffAttempts (setReadyState s r m) = backoffAttempts m \<and>
   intentionalClose (setReadyState s r m) = intentionalClose m \<and>
   pingTimer (setReadyState s r m) = pingTimer m \<and> stableTimer (setReadyState s r m) = stableTimer m \<and>
   state (setReadyState s r m) = state m \<and> ws (setReadyState s r m) = ws m \<and>
   reconnectTimer (setReadyState s r m) = reconnectTimer m \<and>
   host (setReadyState s r m) = host m \<and> port (setReadyState s r m) = port m \<and>
   length (sockets (setReadyState s r m)) = length (sockets m)"
  by (simp add: setReadyState_def)

lemma readyStateOf_setReadyState:
  "s < length (sockets m) \<Longrightarrow> readyStateOf (setReadyState s r m) s = Some r"
  by (simp add: setReadyState_def readyStateOf_def)

text \<open>
  A heartbeat tick is the callback of the interval timer that \<^verbatim>\<open>startPing\<close> creates
  with a period of 15000 ms. At a tick of a manager that holds an open socket: when a
  probe is outstanding, the session is terminated at once (no probe is sent), its close
  event is then due, and handling that event is the Closed transition (timers stopped,
  handle cleared, store disconnected, a reconnect scheduled unless the close was
  intentional); otherwise a probe is sent and marked outstanding. A pong clears the mark
  whenever it arrives.
\<close>

lemma heartbeat_tick:
  assumes "heldOpenSocket m = Some s" and "kind (timers m ! t) = PingInterval"
  shows
    "(awaitingPong m \<longrightarrow>
        deliver (TimerFires t) m = terminate s m \<and>
        readyStateOf (deliver (TimerFires t) m) s = Some CLOSING \<and>
        pinged (deliver (TimerFires t) m) = pinged m \<and>
        enabled (SocketClose s) (deliver (TimerFires t) m) \<and>
        ws (deliver (SocketClose s) (deliver (TimerFires t) m)) = None \<and>
        readyStateOf (deliver (SocketClose s) (deliver (TimerFires t) m)) s = Some CLOSED \<and>
        connected (state (deliver (SocketClose s) (deliver (TimerFires t) m))) = False \<and>
        pingTimer (deliver (SocketClose s) (deliver (TimerFires t) m)) = None \<and>
        stableTimer (deliver (SocketClose s) (deliver (TimerFires t) m)) = None \<and>
        (\<not> intentionalClose m \<longrightarrow>
           reconnectTimer (deliver (SocketClose s) (deliver (TimerFires t) m))
             = Some (length (timers m)))) \<and>
     (\<not> awaitingPong m \<longrightarrow>
        deliver (TimerFires t) m = m\<lparr>awaitingPong := True, pinged := pinged m @ [s]\<rparr>) \<and>
     awaitingPong (deliver (SocketPong s') m) = False \<and>
     pingTimer (startPing m) = Some (length (timers m)) \<and>
     timers (startPing m) ! length (timers m)
       = \<lparr>kind = PingInterval, delay = 15000, active = True\<rparr>"
proof -
  note w = heldOpenSocket_ws [OF assms(1)] and r = heldOpenSocket_readyState [OF assms(1)]
  note tick = fire_ping [OF assms(2)]
  have len: "s < length (sockets m)"
    by (rule readyStateOf_length [OF r])
  have out: "deliver (TimerFires t) m = terminate s m" if "awaitingPong m"
    unfolding tick by (rule pingCallback_outstanding [OF w that])
  have closing: "readyStateOf (terminate s m) s = Some CLOSING"
    by (rule readyStateOf_terminate [OF r])
  have len': "s < length (sockets (terminate s m))"
    by (rule readyStateOf_length [OF closing])
  have pinged: "pinged (terminate s m) = pinged m"
    by (simp add: terminate_eq)
  have en: "enabled (SocketClose s) (terminate s m)"
    using closing len' by simp
  let ?c = "deliver (SocketClose s) (terminate s m)"
  have closed: "ws ?c = None \<and> connected (state ?c) = False \<and> pingTimer ?c = None \<and>
      stableTimer ?c = None"
    by (simp add: onClose_eq droppedState_def)
  have rs: "readyStateOf ?c s = Some CLOSED"
    using len' by (simp add: onClose_eq readyStateOf_def setReadyState_def)
  have re: "reconnectTimer ?c = Some (length (timers m))" if "\<not> intentionalClose m"
    using that by (simp add: onClose_eq setReadyState_fields terminate_eq)
  have probe: "deliver (TimerFires t) m = m\<lparr>awaitingPong := True, pinged := pinged m @ [s]\<rparr>"
    if "\<not> awaitingPong m"
    unfolding tick by (rule pingCallback_probe [OF assms(1) that])
  have pong: "awaitingPong (deliver (SocketPong s') m) = False"
    by (simp add: onPong_def)
  have start: "pingTimer (startPing m) = Some (length (timers m)) \<and>
      timers (startPing m) ! length (timers m) = \<lparr>kind = PingInterval, delay = 15000, active = True\<rparr>"
    by (simp add: startPing_eq)
  show ?thesis
    using out closing pinged en closed rs re probe pong start by simp
qed

lemma heartbeat_tick_example:
  "deliver (TimerFires 0) connectedManager = connectedManager\<lparr>awaitingPong := True, pinged := [0]\<rparr> \<and>
   awaitingPong (deliver (SocketPong 0) (deliver (TimerFires 0) connectedManager)) = False \<and>
   readyStateOf (deliver (TimerFires 0) (deliver (TimerFires 0) connectedManager)) 0 = Some CLOSING \<and>
   reconnectTimer (deliver (SocketClose 0)
     (deliver (TimerFires 0) (deliver (TimerFires 0) connectedManager))) = Some 2"
proof -
  let ?p = "connectedManager\<lparr>awaitingPong := True, pinged := [0]\<rparr>"
  have k: "kind (timers connectedManager ! 0) = PingInterval"
    by (simp add: connectedManager_eq)
  have quiet: "\<not> awaitingPong connectedManager" and none: "pinged connectedManager = []"
    by (simp_all add: connectedManager_eq)
  note first = heartbeat_tick [OF heldOpenSocket_connectedManager k, of 0]
  from first quiet have "deliver (TimerFires 0) connectedManager
      = connectedManager\<lparr>awaitingPong := True, pinged := pinged connectedManager @ [0]\<rparr>"
    by blast
  then have one: "deliver (TimerFires 0) connectedManager = ?p"
    by (simp only: none append_Nil)
  have o: "heldOpenSocket ?p = Some 0"
    by (simp add: heldOpenSocket_def connectedManager_eq readyStateOf_def)
  have k': "kind (timers ?p ! 0) = PingInterval"
    by (simp add: connectedManager_eq)
  have waiting: "awaitingPong ?p" and unintended: "\<not> intentionalClose ?p"
    and two: "length (timers ?p) = 2"
    by (simp_all add: connectedManager_eq)
  note second = heartbeat_tick [OF o k', of 0]
  from second waiting unintended
  have "readyStateOf (deliver (TimerFires 0) ?p) 0 = Some CLOSING \<and>
      reconnectTimer (deliver (SocketClose 0) (deliver (TimerFires 0) ?p))
        = Some (length (timers ?p)) \<and>
      awaitingPong (deliver (SocketPong 0) ?p) = False"
    by blast
  then show ?thesis
    by (simp only: one two)
qed


section \<open>Reconnection backoff\<close>

lemma reconnectDelay_mono: "n \<le> n' \<Longrightarrow> reconnectDelay n \<le> reconnectDelay n'"
proof -
  assume "n \<le> n'"
  then have "(2::nat) ^ n \<le> 2 ^ n'"
    by (simp add: power_increasing)
  then have "RECONNECT_BASE_MS * 2 ^ n \<le> RECONNECT_BASE_MS * 2 ^ n'"
    by (rule mult_le_mono2)
  then show ?thesis
    unfolding reconnectDelay_def by (rule min.mono) simp
qed

lemma reconnectDelay_le: "reconnectDelay n \<le> 30000"
  by (simp add: reconnectDelay_def RECONNECT_MAX_MS_def)

lemma delays_list_update:
  "i < length ts \<Longrightarrow>
   map delay (filter (\<lambda>t. kind t = k) (ts[i := (ts ! i)\<lparr>active := False\<rparr>]))
     = map delay (filter (\<lambda>t. kind t = k) ts)"
proof (induction ts arbitrary: i)
  case Nil
  then show ?case by simp
next
  case (Cons a ts)
  then show ?case by (cases i) simp_all
qed

lemma delays_clearedTimers:
  "map delay (filter (\<lambda>t. kind t = k) (clearedTimers h ts))
     = map delay (filter (\<lambda>t. kind t = k) ts)"
  by (cases h) (simp_all add: clearedTimers_def delays_list_update)

lemma clearedTimers_append_new:
  "length ts = n \<Longrightarrow> clearedTimers (Some n) (ts @ [x]) = ts @ [x\<lparr>active := False\<rparr>]"
  by (auto simp: clearedTimers_def)

lemma clearedTimers_None: "clearedTimers None ts = ts"
  by (simp add: clearedTimers_def)

lemma failedAttempt_step:
  assumes "attemptInProgress m"
  shows "\<exists>m'. failedAttempt m = Some m' \<and> attemptInProgress m' \<and>
           backoffAttempts m' = backoffAttempts m + 1 \<and>
           scheduledDelays m' = scheduledDelays m @ [reconnectDelay (backoffAttempts m)]"
proof -
  from assms obtain s where w: "ws m = Some s" and c: "readyStateOf m s = Some CONNECTING"
    and i: "\<not> intentionalClose m"
    by (cases "ws m") (simp_all add: attemptInProgress_def)
  have len: "s < length (sockets m)"
    by (rule readyStateOf_length [OF c])
  let ?t = "length (timers m)"
  let ?m0 = "setReadyState s CLOSED m"
  let ?m1 = "deliver (SocketClose s) m"
  let ?ts = "clearedTimers (stableTimer m) (clearedTimers (pingTimer m) (timers m))"
  let ?new = "\<lparr>kind = ReconnectTimeout, delay = reconnectDelay (backoffAttempts m), active = True\<rparr>"
  have en1: "enabled (SocketClose s) m"
    using c len by simp
  have f0: "\<not> intentionalClose ?m0" "timers ?m0 = timers m" "backoffAttempts ?m0 = backoffAttempts m"
    "pingTimer ?m0 = pingTimer m" "stableTimer ?m0 = stableTimer m"
    using i by (simp_all add: setReadyState_fields)
  have t1: "timers ?m1 = ?ts @ [?new]"
    and b1: "backoffAttempts ?m1 = backoffAttempts m + 1"
    and s1: "sockets ?m1 = sockets ?m0" and h1: "host ?m1 = host m" "port ?m1 = port m"
    by (simp_all add: onClose_eq f0) (simp_all add: setReadyState_def)
  have lts: "length ?ts = ?t"
    by simp
  have en2: "enabled (TimerFires ?t) ?m1"
    unfolding enabled.simps timerActive_def t1 by (simp add: nth_append)
  have k: "kind (timers ?m1 ! ?t) = ReconnectTimeout"
    unfolding t1 by (simp add: nth_append)
  let ?m2 = "deliver (TimerFires ?t) ?m1"
  have m2: "?m2 = connect ((clearTimer ?t ?m1)\<lparr>reconnectTimer := None\<rparr>)"
    using k by (simp add: fire_def reconnectCallback_def)
  have "timers ?m2 = clearedTimers None (clearedTimers (Some ?t) (timers ?m1))"
    unfolding m2 connect_eq clearTimer_eq by simp
  then have t2: "timers ?m2 = ?ts @ [?new\<lparr>active := False\<rparr>]"
    unfolding t1 by (simp only: clearedTimers_None clearedTimers_append_new [OF lts])
  have w2: "ws ?m2 = Some (length (sockets m))" and i2: "\<not> intentionalClose ?m2"
    and b2: "backoffAttempts ?m2 = backoffAttempts m + 1"
    and so2: "sockets ?m2 = sockets ?m0 @ [\<lparr>readyState = CONNECTING, urlHost = host m, urlPort = port m\<rparr>]"
    unfolding m2 connect_eq clearTimer_eq
    using i by (simp_all add: onClose_eq terminatedSockets_def setReadyState_fields)
  have c2: "readyStateOf ?m2 (length (sockets m)) = Some CONNECTING"
    unfolding readyStateOf_def so2 by (simp add: setReadyState_fields nth_append)
  have a2: "attemptInProgress ?m2"
    unfolding attemptInProgress_def w2 using c2 i2 by simp
  have d2: "scheduledDelays ?m2 = scheduledDelays m @ [reconnectDelay (backoffAttempts m)]"
    unfolding scheduledDelays_def t2 by (simp add: delays_clearedTimers)
  have "failedAttempt m = Some ?m2"
    unfolding failedAttempt_def w using en1 en2 by simp
  with a2 b2 d2 show ?thesis
    by blast
qed

lemma failedAttempts_delays:
  "attemptInProgress m \<Longrightarrow>
   \<exists>m'. failedAttempts k m = Some m' \<and> backoffAttempts m' = backoffAttempts m + k \<and>
     scheduledDelays m' = scheduledDelays m @ map (\<lambda>i. reconnectDelay (backoffAttempts m + i)) [0..<k]"
proof (induction k arbitrary: m)
  case 0
  then show ?case by simp
next
  case (Suc k)
  from failedAttempt_step [OF Suc.prems] obtain m1 where
    1: "failedAttempt m = Some m1" "attemptInProgress m1"
       "backoffAttempts m1 = backoffAttempts m + 1"
       "scheduledDelays m1 = scheduledDelays m @ [reconnectDelay (backoffAttempts m)]"
    by blast
  from Suc.IH [OF 1(2)] obtain m' where
    2: "failedAttempts k m1 = Some m'" "backoffAttempts m' = backoffAttempts m1 + k"
       "scheduledDelays m' = scheduledDelays m1 @ map (\<lambda>i. reconnectDelay (backoffAttempts m1 + i)) [0..<k]"
    by blast
  have "map (\<lambda>i. reconnectDelay (backoffAttempts m + i)) [0..<Suc k]
      = reconnectDelay (backoffAttempts m) # map (\<lambda>i. reconnectDelay (backoffAttempts m + 1 + i)) [0..<k]"
    by (simp add: upt_conv_Cons map_Suc_upt [symmetric] del: upt_Suc)
  with 1 2 show ?case
    by simp
qed

lemma send_unrelated_fields:
  "timers (snd (send cmd onError m)) = timers m \<and>
   backoffAttempts (snd (send cmd onError m)) = backoffAttempts m \<and>
   sockets (snd (send cmd onError m)) = sockets m \<and>
   state (snd (send cmd onError m)) = state m \<and>
   invoked (snd (send cmd onError m)) = invoked m"
  by (cases "heldOpenSocket m") (simp_all add: send_closed send_open)

lemma onOpen_timers:
  "timers (onOpen m) = timers m @ [\<lparr>kind = PingInterval, delay = 15000, active = True\<rparr>,
                                   \<lparr>kind = StableTimeout, delay = 30000, active = True\<rparr>] \<and>
   pingTimer (onOpen m) = Some (length (timers m)) \<and>
   stableTimer (onOpen m) = Some (Suc (length (timers m))) \<and>
   backoffAttempts (onOpen m) = backoffAttempts m"
  unfolding onOpen_def startStableTimer_eq startPing_eq
  by (simp add: send_unrelated_fields setConnected_eq)

lemma stable_window:
  "stableTimer (deliver (SocketOpen s) m) = Some (Suc (length (timers m))) \<and>
   timers (deliver (SocketOpen s) m) ! Suc (length (timers m))
     = \<lparr>kind = StableTimeout, delay = 30000, active = True\<rparr> \<and>
   enabled (TimerFires (Suc (length (timers m)))) (deliver (SocketOpen s) m) \<and>
   backoffAttempts (deliver (TimerFires (Suc (length (timers m)))) (deliver (SocketOpen s) m)) = 0"
proof -
  let ?m1 = "deliver (SocketOpen s) m"
  let ?t = "Suc (length (timers m))"
  have t: "timers ?m1 = timers m @ [\<lparr>kind = PingInterval, delay = 15000, active = True\<rparr>,
                                     \<lparr>kind = StableTimeout, delay = 30000, active = True\<rparr>]"
    and st: "stableTimer ?m1 = Some ?t"
    by (simp_all add: onOpen_timers setReadyState_fields)
  have n: "timers ?m1 ! ?t = \<lparr>kind = StableTimeout, delay = 30000, active = True\<rparr>"
    unfolding t by (simp add: nth_append)
  have en: "enabled (TimerFires ?t) ?m1"
    unfolding enabled.simps timerActive_def t by (simp add: nth_append)
  have "deliver (TimerFires ?t) ?m1 = stableCallback (clearTimer ?t ?m1)"
    unfolding deliver.simps fire_def n [unfolded deliver.simps] by simp
  then have "backoffAttempts (deliver (TimerFires ?t) ?m1) = 0"
    by (simp only: stableCallback_def) simp
  with st n en show ?thesis
    by blast
qed

lemma reconnectDelay_0: "reconnectDelay 0 = 1000"
  by (simp add: reconnectDelay_def RECONNECT_BASE_MS_def RECONNECT_MAX_MS_def)

text \<open>
  The delay of the reconnect scheduled after \<open>n\<close> attempts is
  \<open>min (1000 * 2 ^ n) 30000\<close> ms, and scheduling counts one more attempt. So the delays
  never decrease with the attempts and stay at 30000 ms once there; \<open>k\<close> consecutive failed
  attempts, from a manager with an attempt in progress, are given the delays of the
  attempts counted so far plus 0, 1, ..., \<open>k - 1\<close>. The stability timer that an open
  event starts has a delay of 30000 ms; when it fires the attempts are reset to 0, so the
  next delay is 1000 ms.
\<close>

lemma reconnect_backoff:
  "reconnectDelay n = min (1000 * 2 ^ n) 30000 \<and>
   (n \<le> n' \<longrightarrow> reconnectDelay n \<le> reconnectDelay n') \<and>
   scheduleReconnect m =
     m\<lparr>backoffAttempts := backoffAttempts m + 1,
       timers := timers m @ [\<lparr>kind = ReconnectTimeout, delay = reconnectDelay (backoffAttempts m),
                               active = True\<rparr>],
       reconnectTimer := Some (length (timers m))\<rparr> \<and>
   (attemptInProgress m \<longrightarrow>
      (\<exists>m'. failedAttempts k m = Some m' \<and> backoffAttempts m' = backoffAttempts m + k \<and>
         scheduledDelays m' =
           scheduledDelays m @ map (\<lambda>i. reconnectDelay (backoffAttempts m + i)) [0..<k])) \<and>
   stableTimer (deliver (SocketOpen s) m) = Some (Suc (length (timers m))) \<and>
   timers (deliver (SocketOpen s) m) ! Suc (length (timers m))
     = \<lparr>kind = StableTimeout, delay = 30000, active = True\<rparr> \<and>
   enabled (TimerFires (Suc (length (timers m)))) (deliver (SocketOpen s) m) \<and>
   backoffAttempts (deliver (TimerFires (Suc (length (timers m)))) (deliver (SocketOpen s) m)) = 0 \<and>
   reconnectDelay 0 = 1000"
proof -
  have "reconnectDelay n = min (1000 * 2 ^ n) 30000"
    by (simp add: reconnectDelay_def RECONNECT_BASE_MS_def RECONNECT_MAX_MS_def)
  with reconnectDelay_mono [of n n'] scheduleReconnect_eq [of m] failedAttempts_delays [of m k]
    stable_window [of s m] reconnectDelay_0
  show ?thesis
    by blast
qed

lemma first_six_delays:
  "map (\<lambda>i. reconnectDelay (0 + i)) [0..<6] = [1000, 2000, 4000, 8000, 16000, 30000]"
  by (simp add: reconnectDelay_def RECONNECT_BASE_MS_def RECONNECT_MAX_MS_def upt_rec)

lemma reconnect_backoff_example:
  "reconnectDelay 3 \<le> reconnectDelay 7 \<and>
   map_option scheduledDelays (failedAttempts 6 startedManager)
     = Some [1000, 2000, 4000, 8000, 16000, 30000]"
proof -
  note b = reconnect_backoff [of 3 7 startedManager 6 0]
  have a: "attemptInProgress startedManager" and z: "backoffAttempts startedManager = 0"
    and e: "scheduledDelays startedManager = []"
    by (simp_all add: startedManager_eq attemptInProgress_def readyStateOf_def scheduledDelays_def)
  from b a obtain m' where "failedAttempts 6 startedManager = Some m'"
    and "scheduledDelays m' = scheduledDelays startedManager
           @ map (\<lambda>i. reconnectDelay (backoffAttempts startedManager + i)) [0..<6]"
    by blast
  then have "map_option scheduledDelays (failedAttempts 6 startedManager)
      = Some [1000, 2000, 4000, 8000, 16000, 30000]"
    by (simp only: z e first_six_delays option.map append_Nil)
  moreover from b have "reconnectDelay 3 \<le> reconnectDelay 7"
    by simp
  ultimately show ?thesis
    by blast
qed

lemma flapFailures_run:
  "map_option (\<lambda>m. (map readyState (sockets m), connected (state m), scheduledDelays m,
                     backoffAttempts m, timerActive m 4, timers m ! 4))
     (run flapFailures strandedManager)
   = Some ([CLOSED, CLOSED, CLOSED, CLOSED, CLOSED, CLOSED, CLOSED], False,
           [1000, 2000, 4000, 8000, 16000, 30000, 30000], 7, True,
           \<lparr>kind = StableTimeout, delay = 30000, active = True\<rparr>)"
  unfolding flapFailures_def strandedManager_def scheduledDelays_def
  by (simp add: model_defs cong: let_weak_cong prod.case_cong_weak)

lemma flapRest_run:
  "map_option (\<lambda>m. (scheduledDelays m, backoffAttempts m))
     (run (flapFailures @ [TimerFires 4, TimerFires 11, SocketClose 7]) strandedManager)
   = Some ([1000, 2000, 4000, 8000, 16000, 30000, 30000, 1000], 1)"
  unfolding flapFailures_def strandedManager_def scheduledDelays_def
  by (simp add: model_defs cong: let_weak_cong prod.case_cong_weak)

text \<open>
  C2 says that the delays never decrease across consecutive failed attempts and that the
  attempt counter returns to zero, and the delay to 1000 ms, only after a connection has
  survived the 30 s stability window uninterrupted. The run \<open>flapTrace\<close> ends otherwise.
  \<^verbatim>\<open>startStableTimer\<close> stores the new timer over the handle of the previous one without
  clearing it, and \<^verbatim>\<open>stopStableTimer\<close> clears only the timer whose handle is stored.
  In the run two sessions are open at once (socket 1, left open without a handle, and
  socket 2), so the stability timer of socket 1 (timer 4) loses its handle when socket 2
  opens and survives the close of both sockets, about 1 s after socket 1 opened. All later
  attempts fail at once, with delays 2000, 4000, 8000, 16000, 30000 and 30000 ms. When
  timer 4 fires, 30 s after socket 1 opened, every socket is closed, the store says
  disconnected and seven attempts are counted; the timer resets the count, and the
  failure of the next attempt schedules a reconnect after 1000 ms.
\<close>

theorem stale_stability_timer_resets_backoff:
  "map_option (\<lambda>m. (map readyState (sockets m), connected (state m), scheduledDelays m,
                     backoffAttempts m, timerActive m 4, timers m ! 4))
     (run (strandedTrace @ flapFailures) startedManager)
   = Some ([CLOSED, CLOSED, CLOSED, CLOSED, CLOSED, CLOSED, CLOSED], False,
           [1000, 2000, 4000, 8000, 16000, 30000, 30000], 7, True,
           \<lparr>kind = StableTimeout, delay = 30000, active = True\<rparr>) \<and>
   map_option (\<lambda>m. (scheduledDelays m, backoffAttempts m)) (run flapTrace startedManager)
   = Some ([1000, 2000, 4000, 8000, 16000, 30000, 30000, 1000], 1)"
proof -
  have "run (strandedTrace @ es) startedManager = run es strandedManager" for es
    by (simp add: run_append strandedTrace_run)
  then show ?thesis
    unfolding flapTrace_def by (simp only: flapFailures_run flapRest_run simp_thms)
qed

section \<open>Settings\<close>

lemma digit_not_white: "isDigit c \<Longrightarrow> \<not> isWhiteSpace c"
  unfolding isDigit_def isWhiteSpace_def word_le_nat_alt
  by (auto simp: word_le_nat_alt)

lemma digit_not_sign: "isDigit c \<Longrightarrow> c \<noteq> 0x2B \<and> c \<noteq> 0x2D"
  unfolding isDigit_def by auto

lemma sign_not_white: "\<not> isWhiteSpace 0x2B" "\<not> isWhiteSpace 0x2D"
  by (simp_all add: isWhiteSpace_def)

lemma dropWhile_white:
  "list_all isWhiteSpace w \<Longrightarrow> \<not> isWhiteSpace x \<Longrightarrow> dropWhile isWhiteSpace (w @ x # xs) = x # xs"
  by (induction w) simp_all

lemma dropWhile_white_only: "list_all isWhiteSpace w \<Longrightarrow> dropWhile isWhiteSpace w = []"
  by (induction w) simp_all

lemma takeWhile_digits:
  "list_all isDigit ds \<Longrightarrow> rest = [] \<or> \<not> isDigit (hd rest) \<Longrightarrow> takeWhile isDigit (ds @ rest) = ds"
  by (induction ds) (auto simp: takeWhile_eq_Nil_iff neq_Nil_conv)

lemma parseInt_unsigned:
  assumes "list_all isWhiteSpace w" "ds \<noteq> []" "list_all isDigit ds" "rest = [] \<or> \<not> isDigit (hd rest)"
  shows "parseInt (w @ ds @ rest) = Some (decimalValue ds)"
proof -
  from assms(2) obtain d ds' where ds: "ds = d # ds'"
    by (cases ds) simp_all
  with assms(3) have d: "isDigit d"
    by simp
  have "dropWhile isWhiteSpace (w @ ds @ rest) = ds @ rest"
    unfolding ds using dropWhile_white [OF assms(1) digit_not_white [OF d]] by simp
  moreover have "takeWhile isDigit (ds @ rest) = ds"
    by (rule takeWhile_digits [OF assms(3,4)])
  ultimately show ?thesis
    using digit_not_sign [OF d] assms(2) by (simp add: parseInt_def ds)
qed

lemma parseInt_plus:
  assumes "list_all isWhiteSpace w" "ds \<noteq> []" "list_all isDigit ds" "rest = [] \<or> \<not> isDigit (hd rest)"
  shows "parseInt (w @ 0x2B # ds @ rest) = Some (decimalValue ds)"
  using dropWhile_white [OF assms(1) sign_not_white(1), of "ds @ rest"]
    takeWhile_digits [OF assms(3,4)] assms(2)
  by (simp add: parseInt_def)

lemma parseInt_minus:
  assumes "list_all isWhiteSpace w" "ds \<noteq> []" "list_all isDigit ds" "rest = [] \<or> \<not> isDigit (hd rest)"
  shows "parseInt (w @ 0x2D # ds @ rest) = Some (- decimalValue ds)"
  using dropWhile_white [OF assms(1) sign_not_white(2), of "ds @ rest"]
    takeWhile_digits [OF assms(3,4)] assms(2)
  by (simp add: parseInt_def)

lemma parseInt_no_digit:
  assumes "list_all isWhiteSpace w" "rest = [] \<or> \<not> isDigit (hd rest)"
  shows "parseInt (w @ 0x2B # rest) = None \<and> parseInt (w @ 0x2D # rest) = None"
  using dropWhile_white [OF assms(1) sign_not_white(1), of rest]
    dropWhile_white [OF assms(1) sign_not_white(2), of rest] assms(2)
  by (auto simp: parseInt_def takeWhile_eq_Nil_iff neq_Nil_conv)

lemma parseInt_no_digit_unsigned:
  assumes "list_all isWhiteSpace w" "\<not> isWhiteSpace x" "\<not> isDigit x" "x \<noteq> 0x2B" "x \<noteq> 0x2D"
  shows "parseInt (w @ x # rest) = None"
  using dropWhile_white [OF assms(1,2), of rest] assms(3-5)
  by (simp add: parseInt_def)

lemma parseInt_white: "list_all isWhiteSpace w \<Longrightarrow> parseInt w = None"
  by (simp add: parseInt_def dropWhile_white_only)

lemma resolvePort_eq:
  "resolvePort p =
     (case p of
        None \<Rightarrow> 9595
      | Some v \<Rightarrow>
          (case parseInt v of
             None \<Rightarrow> 9595
           | Some n \<Rightarrow> if 1 \<le> n \<and> n \<le> 65535 then of_int n else 9595))"
proof (cases p)
  case None
  then show ?thesis by (simp add: resolvePort_def DEFAULT_PORT_def)
next
  case (Some v)
  have e: "parseInt [] = None"
    by (simp add: parseInt_def)
  have pos: "(0 < (of_int n :: rat)) = (1 \<le> n)" for n :: int
    by (simp add: int_one_le_iff_zero_less)
  have le: "((of_int n :: rat) \<le> 65535) = (n \<le> 65535)" for n :: int
    using of_int_le_iff [of n 65535, where ?'a = rat] by simp
  show ?thesis
    by (cases "parseInt v") (auto simp: Some resolvePort_def DEFAULT_PORT_def e pos le)
qed

lemma applySettings_fields:
  "host (snd (applySettings gs m)) = resolveHost (gs_host gs) \<and>
   port (snd (applySettings gs m)) = resolvePort (gs_port gs) \<and>
   authenticationKey (snd (applySettings gs m)) = resolveKey (gs_authenticationKey gs)"
  by (simp add: applySettings_def Let_def)

lemma decimalValue_80: "decimalValue (js ''80'') = 80"
  by (simp add: decimalValue_def digitValue_def js_def)

text \<open>
  What the code resolves. Settings resolution yields the loopback host 127.0.0.1 when the host is
  absent, empty or white space only, and the trimmed host otherwise; an empty shared
  secret when it is absent, and the trimmed secret otherwise; and the default port 9595
  when the port value is absent or \<^verbatim>\<open>parseInt\<close> finds no integer in it or the integer
  is outside 1 to 65535, and that integer otherwise. \<^verbatim>\<open>parseInt\<close> finds an integer
  exactly when the value, after leading white space and an optional sign, starts with a
  decimal digit; the integer is the value of the leading digits, whatever follows them.
  The settings with empty host, port and secret resolve to 127.0.0.1, 9595 and no secret,
  and then no command carries a \<open>key\<close> field.
\<close>

lemma settings_resolution:
  "host (snd (applySettings gs m))
     = (case gs_host gs of
          None \<Rightarrow> js ''127.0.0.1''
        | Some h \<Rightarrow> if trim h = [] then js ''127.0.0.1'' else trim h) \<and>
   port (snd (applySettings gs m))
     = (case gs_port gs of
          None \<Rightarrow> 9595
        | Some p \<Rightarrow>
            (case parseInt p of
               None \<Rightarrow> 9595
             | Some n \<Rightarrow> if 1 \<le> n \<and> n \<le> 65535 then of_int n else 9595)) \<and>
   authenticationKey (snd (applySettings gs m))
     = (case gs_authenticationKey gs of None \<Rightarrow> [] | Some k \<Rightarrow> trim k) \<and>
   (list_all isWhiteSpace w \<and> ds \<noteq> [] \<and> list_all isDigit ds \<and> (rest = [] \<or> \<not> isDigit (hd rest)) \<longrightarrow>
      parseInt (w @ ds @ rest) = Some (decimalValue ds) \<and>
      parseInt (w @ 0x2B # ds @ rest) = Some (decimalValue ds) \<and>
      parseInt (w @ 0x2D # ds @ rest) = Some (- decimalValue ds)) \<and>
   (list_all isWhiteSpace w \<and> (rest = [] \<or> \<not> isDigit (hd rest)) \<longrightarrow>
      parseInt w = None \<and>
      parseInt (w @ 0x2B # rest) = None \<and>
      parseInt (w @ 0x2D # rest) = None \<and>
      (\<not> isWhiteSpace x \<and> \<not> isDigit x \<and> x \<noteq> 0x2B \<and> x \<noteq> 0x2D \<longrightarrow>
         parseInt (w @ x # rest') = None)) \<and>
   host (snd (applySettings emptySettings m)) = js ''127.0.0.1'' \<and>
   port (snd (applySettings emptySettings m)) = 9595 \<and>
   authenticationKey (snd (applySettings emptySettings m)) = [] \<and>
   payload cmd (authenticationKey (snd (applySettings emptySettings m))) = commandFields cmd"
proof -
  have h: "host (snd (applySettings gs m))
      = (case gs_host gs of None \<Rightarrow> js ''127.0.0.1''
         | Some h \<Rightarrow> if trim h = [] then js ''127.0.0.1'' else trim h)"
    by (cases "gs_host gs") (simp_all add: applySettings_fields resolveHost_def DEFAULT_HOST_def)
  have p: "port (snd (applySettings gs m)) = resolvePort (gs_port gs)"
    by (simp add: applySettings_fields)
  have k: "authenticationKey (snd (applySettings gs m))
      = (case gs_authenticationKey gs of None \<Rightarrow> [] | Some k \<Rightarrow> trim k)"
    by (cases "gs_authenticationKey gs") (simp_all add: applySettings_fields resolveKey_def)
  have e: "host (snd (applySettings emptySettings m)) = js ''127.0.0.1''"
    "port (snd (applySettings emptySettings m)) = 9595"
    "authenticationKey (snd (applySettings emptySettings m)) = []"
    by (simp_all add: applySettings_fields resolveHost_def resolveKey_def resolvePort_eq
        emptySettings_def trim_def DEFAULT_HOST_def parseInt_def)
  have pl: "payload cmd (authenticationKey (snd (applySettings emptySettings m))) = commandFields cmd"
    by (simp add: e payload_def)
  note p' = p [unfolded resolvePort_eq]
  have signed: "list_all isWhiteSpace w \<and> ds \<noteq> [] \<and> list_all isDigit ds \<and>
      (rest = [] \<or> \<not> isDigit (hd rest)) \<longrightarrow>
      parseInt (w @ ds @ rest) = Some (decimalValue ds) \<and>
      parseInt (w @ 0x2B # ds @ rest) = Some (decimalValue ds) \<and>
      parseInt (w @ 0x2D # ds @ rest) = Some (- decimalValue ds)"
    using parseInt_unsigned [of w ds rest] parseInt_plus [of w ds rest] parseInt_minus [of w ds rest]
    by blast
  have none: "list_all isWhiteSpace w \<and> (rest = [] \<or> \<not> isDigit (hd rest)) \<longrightarrow>
      parseInt w = None \<and>
      parseInt (w @ 0x2B # rest) = None \<and>
      parseInt (w @ 0x2D # rest) = None \<and>
      (\<not> isWhiteSpace x \<and> \<not> isDigit x \<and> x \<noteq> 0x2B \<and> x \<noteq> 0x2D \<longrightarrow>
         parseInt (w @ x # rest') = None)"
    using parseInt_no_digit [of w rest] parseInt_white [of w] parseInt_no_digit_unsigned [of w x rest']
    by (intro impI conjI) simp_all
  from h p' k signed none e pl show ?thesis
    by (intro conjI)
qed

lemma settings_resolution_example:
  "host (snd (applySettings junkPortSettings initialManager)) = js ''10.0.0.2'' \<and>
   port (snd (applySettings junkPortSettings initialManager)) = 80 \<and>
   authenticationKey (snd (applySettings junkPortSettings initialManager)) = [] \<and>
   parseInt (js ''80abc'') = Some 80 \<and>
   parseInt (js ''  -80'') = Some (- 80) \<and>
   parseInt (js ''abc'') = None \<and>
   port (snd (applySettings emptySettings initialManager)) = 9595"
proof -
  note r = settings_resolution [of junkPortSettings initialManager "[]" "js ''80''" "js ''abc''"]
  note r' = settings_resolution [of junkPortSettings initialManager "js ''  ''" "js ''80''" "[]"]
  note r'' = settings_resolution [of junkPortSettings initialManager "[]" "[]" "[]" "0x61" "js ''bc''"]
  have digits: "js ''80'' \<noteq> []" "list_all isDigit (js ''80'')" "\<not> isDigit (hd (js ''abc''))"
    "\<not> isDigit (hd (js ''bc''))" "list_all isWhiteSpace (js ''  '')" "list_all isWhiteSpace []"
    "\<not> isWhiteSpace 0x61" "\<not> isDigit 0x61"
    by (simp_all add: js_def isDigit_def isWhiteSpace_def)
  have s: "[] @ js ''80'' @ js ''abc'' = js ''80abc''" "js ''  '' @ 0x2D # js ''80'' @ [] = js ''  -80''"
    "[] @ 0x61 # js ''bc'' = js ''abc''"
    by (simp_all add: js_def)
  from r digits have 1: "parseInt ([] @ js ''80'' @ js ''abc'') = Some (decimalValue (js ''80''))"
    by blast
  from r' digits have 2: "parseInt (js ''  '' @ 0x2D # js ''80'' @ []) = Some (- decimalValue (js ''80''))"
    by blast
  from r'' digits have 3: "parseInt ([] @ 0x61 # js ''bc'') = None"
    by simp
  note v = 1 [unfolded s decimalValue_80] 2 [unfolded s decimalValue_80] 3 [unfolded s]
  from r have "port (snd (applySettings junkPortSettings initialManager))
      = (case gs_port junkPortSettings of None \<Rightarrow> 9595
         | Some p \<Rightarrow> (case parseInt p of None \<Rightarrow> 9595
             | Some n \<Rightarrow> if 1 \<le> n \<and> n \<le> 65535 then of_int n else 9595))"
    by blast
  then have 4: "port (snd (applySettings junkPortSettings initialManager)) = 80"
    by (simp add: junkPortSettings_def v)
  from r have "host (snd (applySettings junkPortSettings initialManager))
      = (case gs_host junkPortSettings of None \<Rightarrow> js ''127.0.0.1''
         | Some h \<Rightarrow> if trim h = [] then js ''127.0.0.1'' else trim h)"
    by blast
  then have 5: "host (snd (applySettings junkPortSettings initialManager)) = js ''10.0.0.2''"
    by (simp add: junkPortSettings_def trim_def js_def isWhiteSpace_def)
  from r have 6: "authenticationKey (snd (applySettings junkPortSettings initialManager))
      = (case gs_authenticationKey junkPortSettings of None \<Rightarrow> [] | Some k \<Rightarrow> trim k)"
    and 7: "port (snd (applySettings emptySettings initialManager)) = 9595"
    by blast+
  from 6 have 8: "authenticationKey (snd (applySettings junkPortSettings initialManager)) = []"
    by (simp add: junkPortSettings_def)
  from v 4 5 7 8 show ?thesis
    by blast
qed

text \<open>
  C9 says that a port value that is not numeric resolves to the default port 9595, and
  so does the comment of \<^verbatim>\<open>parsePort\<close> (``returning the default if empty/invalid'').
  The code resolves every port value that starts with decimal digits and goes on with
  other characters to the integer of those leading digits, when that is within 1 to
  65535: \<^verbatim>\<open>parseInt\<close> stops reading at the first character that is not a digit and
  ignores the rest. So the port value \<open>80abc\<close> resolves to port 80.
\<close>

theorem port_with_trailing_characters_accepted:
  assumes "ds \<noteq> []" and "list_all isDigit ds" and "rest \<noteq> []" and "\<not> isDigit (hd rest)"
    and "1 \<le> decimalValue ds" and "decimalValue ds \<le> 65535"
    and "gs_port gs = Some (ds @ rest)"
  shows "\<not> spec_numeric (ds @ rest) \<and>
         resolvePort (Some (ds @ rest)) = of_int (decimalValue ds) \<and>
         port (snd (applySettings gs m)) = of_int (decimalValue ds)"
proof -
  from assms(3,4) have "\<not> list_all isDigit rest"
    by (cases rest) simp_all
  then have n: "\<not> spec_numeric (ds @ rest)"
    by (simp add: spec_numeric_def)
  have "parseInt ([] @ ds @ rest) = Some (decimalValue ds)"
    by (rule parseInt_unsigned) (simp_all add: assms)
  then have r: "resolvePort (Some (ds @ rest)) = of_int (decimalValue ds)"
    by (simp add: resolvePort_eq assms(5,6))
  then have "port (snd (applySettings gs m)) = of_int (decimalValue ds)"
    by (simp add: applySettings_fields assms(7))
  with n r show ?thesis
    by blast
qed

theorem port_with_trailing_characters_accepted_witness:
  "\<not> spec_numeric (js ''80abc'') \<and>
   port (snd (applySettings junkPortSettings initialManager)) = 80 \<and>
   port (snd (applySettings junkPortSettings initialManager)) \<noteq> DEFAULT_PORT"
proof -
  have s: "js ''80'' @ js ''abc'' = js ''80abc''"
    by (simp add: js_def)
  have "\<not> spec_numeric (js ''80'' @ js ''abc'') \<and>
      resolvePort (Some (js ''80'' @ js ''abc'')) = of_int (decimalValue (js ''80'')) \<and>
      port (snd (applySettings junkPortSettings initialManager)) = of_int (decimalValue (js ''80''))"
    by (rule port_with_trailing_characters_accepted)
       (simp_all add: decimalValue_80 junkPortSettings_def s, simp_all add: js_def isDigit_def)
  then show ?thesis
    unfolding s decimalValue_80 by (simp add: DEFAULT_PORT_def)
qed

section \<open>Failure callbacks\<close>

lemma send_open_session:
  "heldOpenSocket (m\<lparr>pendingErrorCallback := c, transmitted := t\<rparr>) = heldOpenSocket m"
  by (cases "ws m") (simp_all add: heldOpenSocket_def readyStateOf_def)

lemma sendAll_open:
  "heldOpenSocket m = Some s \<Longrightarrow>
   sendAll cmds m =
     m\<lparr>pendingErrorCallback := (if cmds = [] then pendingErrorCallback m else snd (last cmds)),
       transmitted := transmitted m @ map (\<lambda>c. (s, payload (fst c) (authenticationKey m))) cmds\<rparr>"
proof (induction cmds arbitrary: m)
  case Nil
  then show ?case by simp
next
  case (Cons c cmds)
  obtain cmd onError where c: "c = (cmd, onError)"
    by (cases c)
  let ?m1 = "m\<lparr>pendingErrorCallback := onError,
               transmitted := transmitted m @ [(s, payload cmd (authenticationKey m))]\<rparr>"
  have o: "heldOpenSocket ?m1 = Some s"
    using Cons.prems by (simp only: send_open_session)
  have "sendAll (c # cmds) m = sendAll cmds ?m1"
    by (simp add: c send_open [OF Cons.prems])
  also note Cons.IH [OF o]
  finally show ?case
    by (simp add: c)
qed

lemma handleMessage_callbacks:
  "pendingErrorCallback (handleMessage d m) = pendingErrorCallback m \<and>
   invoked (handleMessage d m) = invoked m"
  unfolding handleMessage_refines
  by (cases "(spec_recognize d, m)" rule: spec_applyDelta.cases)
     (simp_all add: spec_setInputMuted_def spec_setOutputMuted_def spec_setRecording_def)

lemma onMessage_callbacks:
  "(pendingErrorCallback (onMessage p m) = pendingErrorCallback m \<or>
    pendingErrorCallback (onMessage p m) = None) \<and>
   (invoked (onMessage p m) = invoked m \<or>
    invoked (onMessage p m) = invoked m @ callbackList (pendingErrorCallback m))"
proof (cases p)
  case None
  then show ?thesis by (simp add: onMessage_def)
next
  case (Some msg)
  show ?thesis
  proof (cases "isFailureResponse msg")
    case True
    then show ?thesis
      by (cases "errorLogThrows msg") (simp_all add: Some onMessage_failure onMessage_failure_throws)
  next
    case False
    then show ?thesis
      by (cases "getProp msg (js ''data'')")
         (auto simp: Some onMessage_def isFailureResponse_def handleMessage_callbacks)
  qed
qed

lemma send_callbacks:
  "(pendingErrorCallback (snd (send cmd onError m)) = pendingErrorCallback m \<or>
    pendingErrorCallback (snd (send cmd onError m)) = onError) \<and>
   invoked (snd (send cmd onError m)) = invoked m"
  by (cases "heldOpenSocket m") (simp_all add: send_closed send_open)

lemma onOpen_callbacks:
  "(pendingErrorCallback (onOpen m) = pendingErrorCallback m \<or>
    pendingErrorCallback (onOpen m) = None) \<and>
   invoked (onOpen m) = invoked m"
  unfolding onOpen_def startStableTimer_eq startPing_eq
  using send_callbacks [of State None "setConnected True m"]
  by (simp add: setConnected_eq)

lemma settings_callbacks:
  "pendingErrorCallback (onDidReceiveGlobalSettings gs m) = pendingErrorCallback m \<and>
   invoked (onDidReceiveGlobalSettings gs m) = invoked m"
  by (simp add: onDidReceiveGlobalSettings_def applySettings_def Let_def connect_eq disconnect_eq)

lemma pingCallback_callbacks:
  "pendingErrorCallback (pingCallback m) = pendingErrorCallback m \<and>
   invoked (pingCallback m) = invoked m"
  by (cases "ws m") (simp_all add: pingCallback_def terminate_eq)

lemma fire_callbacks:
  "pendingErrorCallback (fire t m) = pendingErrorCallback m \<and> invoked (fire t m) = invoked m"
  by (cases "kind (timers m ! t)")
     (simp_all add: fire_def reconnectCallback_def stableCallback_def connect_eq clearTimer_eq
      pingCallback_callbacks)

lemma setReadyState_callbacks:
  "pendingErrorCallback (setReadyState s r m) = pendingErrorCallback m"
  "invoked (setReadyState s r m) = invoked m"
  by (simp_all add: setReadyState_def)

lemma close_callbacks:
  "pendingErrorCallback (onClose (setReadyState s r m)) = pendingErrorCallback m \<and>
   invoked (onClose (setReadyState s r m)) = invoked m"
  by (simp add: onClose_eq setReadyState_callbacks)

lemma open_callbacks:
  "(pendingErrorCallback (onOpen (setReadyState s r m)) = pendingErrorCallback m \<or>
    pendingErrorCallback (onOpen (setReadyState s r m)) = None) \<and>
   invoked (onOpen (setReadyState s r m)) = invoked m"
  using onOpen_callbacks [of "setReadyState s r m"] by (simp only: setReadyState_callbacks)

lemma deliver_callbacks:
  assumes "\<not> registers cb e" and "pendingErrorCallback m \<noteq> Some cb"
  shows "pendingErrorCallback (deliver e m) \<noteq> Some cb \<and>
         count_list (invoked (deliver e m)) cb = count_list (invoked m) cb"
proof (cases e)
  case (DidReceiveGlobalSettings gs)
  then show ?thesis using assms(2) by (simp add: settings_callbacks)
next
  case (Send cmd onError)
  then show ?thesis
    using assms send_callbacks [of cmd onError m] by auto
next
  case (SocketOpen s)
  then show ?thesis
    using assms(2) open_callbacks [of s OPEN m] by auto
next
  case (SocketClose s)
  then show ?thesis using assms(2) by (simp add: close_callbacks)
next
  case (SocketError s)
  then show ?thesis using assms(2) by simp
next
  case (SocketPong s)
  then show ?thesis using assms(2) by (simp add: onPong_def)
next
  case (SocketMessage s p)
  then show ?thesis
    using assms(2) onMessage_callbacks [of p m]
    by (cases "pendingErrorCallback m") (auto simp: callbackList_def)
next
  case (TimerFires t)
  then show ?thesis using assms(2) by (simp add: fire_callbacks)
qed

lemma orphan_never_invoked:
  "list_all (\<lambda>e. \<not> registers cb e) evs \<Longrightarrow> pendingErrorCallback m \<noteq> Some cb \<Longrightarrow>
   run evs m = Some m' \<Longrightarrow> count_list (invoked m') cb = count_list (invoked m) cb"
proof (induction evs arbitrary: m)
  case Nil
  then show ?case by simp
next
  case (Cons e evs)
  from Cons.prems(1) have e: "\<not> registers cb e" and evs: "list_all (\<lambda>e. \<not> registers cb e) evs"
    by simp_all
  from Cons.prems(3) have r: "run evs (deliver e m) = Some m'"
    by (simp split: if_splits)
  note d = deliver_callbacks [OF e Cons.prems(2)]
  from Cons.IH [OF evs conjunct1 [OF d] r] conjunct2 [OF d] show ?case
    by simp
qed

text \<open>
  After one or more sends on a socket that the manager holds open, a failure response
  whose \<open>error\<close> value is converted to a string without throwing invokes the callback of
  the most recent send, once, if that send gave one, and no other callback; the pending
  callback is then cleared, so a second failure response invokes nothing. A callback that
  is not the most recent send's (one that an earlier send registered and a later send
  replaced) is never invoked, whatever events follow, unless a later send registers it
  again. Callbacks are taken to return normally: the handler clears the pending callback
  after the call.
\<close>

lemma failure_response_callback:
  assumes "heldOpenSocket m = Some s" and "cmds \<noteq> []" and "isFailureResponse msg"
    and "\<not> errorLogThrows msg"
  shows "invoked (sendAll cmds m) = invoked m \<and>
         invoked (onMessage (Some msg) (sendAll cmds m))
           = invoked m @ callbackList (snd (last cmds)) \<and>
         pendingErrorCallback (onMessage (Some msg) (sendAll cmds m)) = None \<and>
         invoked (onMessage (Some msg) (onMessage (Some msg) (sendAll cmds m)))
           = invoked m @ callbackList (snd (last cmds)) \<and>
         (\<forall>cb evs m'. snd (last cmds) \<noteq> Some cb \<and> list_all (\<lambda>e. \<not> registers cb e) evs \<and>
            run evs (sendAll cmds m) = Some m' \<longrightarrow>
            count_list (invoked m') cb = count_list (invoked m) cb)"
proof -
  note sent = sendAll_open [OF assms(1), of cmds]
  have p: "pendingErrorCallback (sendAll cmds m) = snd (last cmds)"
    and i: "invoked (sendAll cmds m) = invoked m"
    using assms(2) by (simp_all add: sent)
  note f = onMessage_failure [OF assms(3,4)]
  have one: "invoked (onMessage (Some msg) (sendAll cmds m)) = invoked m @ callbackList (snd (last cmds))"
    and cleared: "pendingErrorCallback (onMessage (Some msg) (sendAll cmds m)) = None"
    by (simp_all add: f p i)
  have two: "invoked (onMessage (Some msg) (onMessage (Some msg) (sendAll cmds m)))
      = invoked m @ callbackList (snd (last cmds))"
    by (simp add: f [of "onMessage (Some msg) (sendAll cmds m)"] one cleared callbackList_def)
  have orphan: "count_list (invoked m') cb = count_list (invoked m) cb"
    if "snd (last cmds) \<noteq> Some cb" "list_all (\<lambda>e. \<not> registers cb e) evs"
      "run evs (sendAll cmds m) = Some m'" for cb evs m'
    using orphan_never_invoked [OF that(2) _ that(3)] that(1) by (simp add: p i)
  from i one cleared two orphan show ?thesis
    by blast
qed

lemma laterEvents_run: "\<exists>m'. run laterEvents (sendAll twoCommands connectedManager) = Some m'"
  unfolding laterEvents_def twoCommands_def failureFrame_def connectedManager_eq
  by (simp add: model_defs cong: let_weak_cong prod.case_cong_weak)

lemma failure_response_callback_example:
  "invoked (onMessage (Some failureFrame) (sendAll twoCommands connectedManager)) = [2] \<and>
   invoked (onMessage (Some failureFrame)
     (onMessage (Some failureFrame) (sendAll twoCommands connectedManager))) = [2] \<and>
   map_option (\<lambda>m'. count_list (invoked m') 1) (run laterEvents (sendAll twoCommands connectedManager))
     = Some 0"
proof -
  have ne: "twoCommands \<noteq> []" and l: "snd (last twoCommands) = Some 2"
    by (simp_all add: twoCommands_def)
  have i: "invoked connectedManager = []"
    by (simp add: connectedManager_eq)
  have unregistered: "list_all (\<lambda>e. \<not> registers 1 e) laterEvents"
    by (simp add: laterEvents_def)
  note c = failure_response_callback [OF heldOpenSocket_connectedManager ne
      isFailureResponse_failureFrame failureFrame_converts]
  from laterEvents_run obtain m' where r: "run laterEvents (sendAll twoCommands connectedManager) = Some m'"
    by blast
  from c have "snd (last twoCommands) \<noteq> Some 1 \<and> list_all (\<lambda>e. \<not> registers 1 e) laterEvents \<and>
      run laterEvents (sendAll twoCommands connectedManager) = Some m' \<longrightarrow>
      count_list (invoked m') 1 = count_list (invoked connectedManager) 1"
    by blast
  with r unregistered have "count_list (invoked m') 1 = 0"
    by (simp add: l i)
  with r c show ?thesis
    by (simp add: l i callbackList_def)
qed

text \<open>
  C4 says that a failure response after successful sends invokes the most recently
  registered callback once and then clears it. The handler first writes the response's
  \<open>error\<close> value to the log, inside a template literal, and only then invokes the
  callback; when the conversion of that value to a string throws, as it does for the
  frame \<^verbatim>\<open>{"success":false,"error":{"toString":1}}\<close>, the surrounding \<^verbatim>\<open>catch\<close> ends
  the handler. After two sends on the open connection, with callbacks 1 and 2, that frame
  invokes no callback and leaves callback 2 pending, whereas the frame
  \<^verbatim>\<open>{"success":false}\<close> invokes callback 2 and clears it.
\<close>

theorem throwing_failure_response_skips_callback:
  "map_option (\<lambda>m. (invoked m, pendingErrorCallback m))
     (run (failureRun throwingFailureFrame) connectedManager) = Some ([], Some 2) \<and>
   map_option (\<lambda>m. (invoked m, pendingErrorCallback m))
     (run (failureRun failureFrame) connectedManager) = Some ([2], None)"
  unfolding failureRun_def throwingFailureFrame_def failureFrame_def connectedManager_eq
  by (simp add: model_defs cong: let_weak_cong prod.case_cong_weak)

section \<open>Superseded sessions\<close>

text \<open>
  C8 says that the session which a connect request finds and terminates is marked as an
  intentional close, so that its closure never schedules a reconnect. The code marks it
  and loses the mark: \<^verbatim>\<open>connect\<close> sets \<^verbatim>\<open>intentionalClose\<close> before it terminates the
  session it finds, and resets it before it returns. The close event of the terminated
  session is delivered after \<^verbatim>\<open>connect\<close> has returned, so its handler reads the flag as
  false: for every manager that holds a session that is not closed, the close of that
  session after \<^verbatim>\<open>connect\<close> clears the handle of the new session and schedules a
  reconnect.
\<close>

theorem superseded_close_schedules_reconnect:
  assumes "ws m = Some s" and "readyStateOf m s = Some r" and "r \<noteq> CLOSED"
  shows "readyStateOf (connect m) s = Some CLOSING \<and>
         ws (connect m) = Some (length (sockets m)) \<and>
         intentionalClose (connect m) = False \<and>
         enabled (SocketClose s) (connect m) \<and>
         ws (deliver (SocketClose s) (connect m)) = None \<and>
         reconnectTimer (deliver (SocketClose s) (connect m)) = Some (length (timers m)) \<and>
         timers (deliver (SocketClose s) (connect m)) ! length (timers m)
           = \<lparr>kind = ReconnectTimeout, delay = reconnectDelay (backoffAttempts m), active = True\<rparr>"
proof -
  have len: "s < length (sockets m)"
    by (rule readyStateOf_length [OF assms(2)])
  from assms(2,3) have live: "readyState (sockets m ! s) \<noteq> CLOSED"
    by (simp add: readyStateOf_def split: if_splits)
  have so: "sockets (connect m) = (sockets m)[s := (sockets m ! s)\<lparr>readyState := CLOSING\<rparr>]
      @ [\<lparr>readyState = CONNECTING, urlHost = host m, urlPort = port m\<rparr>]"
    using len live by (simp add: connect_eq terminatedSockets_def assms(1))
  have closing: "readyStateOf (connect m) s = Some CLOSING"
    unfolding readyStateOf_def so using len by (simp add: nth_append)
  have w: "ws (connect m) = Some (length (sockets m))" and i: "intentionalClose (connect m) = False"
    and t: "length (timers (connect m)) = length (timers m)"
    and b: "backoffAttempts (connect m) = backoffAttempts m"
    by (simp_all add: connect_eq)
  have en: "enabled (SocketClose s) (connect m)"
    using closing readyStateOf_length [OF closing] by simp
  let ?c = "deliver (SocketClose s) (connect m)"
  have c: "?c = onClose (setReadyState s CLOSED (connect m))"
    by simp
  have "ws ?c = None \<and> reconnectTimer ?c = Some (length (timers m)) \<and>
      timers ?c ! length (timers m)
        = \<lparr>kind = ReconnectTimeout, delay = reconnectDelay (backoffAttempts m), active = True\<rparr>"
    unfolding c onClose_eq
    by (simp add: setReadyState_fields i t b nth_append)
  with closing w i en show ?thesis
    by blast
qed

lemma supersedingPrefix_run: "run supersedingPrefix startedManager = Some staleTimerManager"
  unfolding supersedingPrefix_def startedManager_eq staleTimerManager_def otherHostSettings_def
  by (simp add: model_defs cong: let_weak_cong prod.case_cong_weak)

lemma staleTimer_fires:
  "enabled (TimerFires 3) staleTimerManager \<and>
   deliver (TimerFires 3) staleTimerManager
     = connect (staleTimerManager\<lparr>timers := (timers staleTimerManager)
         [3 := \<lparr>kind = ReconnectTimeout, delay = 2000, active = False\<rparr>]\<rparr>)"
  by (simp add: staleTimerManager_def timerActive_def fire_def reconnectCallback_def clearTimer_def)

theorem superseded_close_schedules_reconnect_witness:
  "run supersedingPrefix startedManager = Some staleTimerManager \<and>
   ws staleTimerManager = Some 2 \<and>
   map_option (\<lambda>m. (ws m, reconnectTimer m)) (run [TimerFires 3, SocketClose 2] staleTimerManager)
     = Some (None, Some 4)"
proof -
  let ?m = "staleTimerManager\<lparr>timers := (timers staleTimerManager)
      [3 := \<lparr>kind = ReconnectTimeout, delay = 2000, active = False\<rparr>]\<rparr>"
  have w: "ws ?m = Some 2" and r: "readyStateOf ?m 2 = Some CONNECTING"
    and n: "length (timers ?m) = 4" and w': "ws staleTimerManager = Some 2"
    by (simp_all add: staleTimerManager_def readyStateOf_def)
  have live: "CONNECTING \<noteq> CLOSED"
    by simp
  note s = superseded_close_schedules_reconnect [OF w r live, unfolded n]
  from s have en: "enabled (SocketClose 2) (connect ?m)"
    and after: "ws (deliver (SocketClose 2) (connect ?m)) = None"
      "reconnectTimer (deliver (SocketClose 2) (connect ?m)) = Some 4"
    by blast+
  have "run [TimerFires 3, SocketClose 2] staleTimerManager
      = Some (deliver (SocketClose 2) (connect ?m))"
    using staleTimer_fires en by (simp only: run.simps) simp
  with after supersedingPrefix_run w' show ?thesis
    by simp
qed

section \<open>The disconnected state\<close>

text \<open>
  C1 says that after every sequence of events the fields \<open>inputMuted\<close>, \<open>outputMuted\<close> and
  \<open>recording\<close> are unknown whenever \<open>connected\<close> is false. The run \<open>staleCloseTrace\<close> ends
  otherwise. The handlers of a socket act on the manager whichever session is current, so
  the close event of a superseded socket clears the handle of the new one, and a later
  connect leaves the new one open beside its successor. When the successor closes, the
  store is marked disconnected while the older session is still open; a recording update
  that then arrives on it is applied: the store ends with \<open>connected\<close> false and
  \<open>recording\<close> true.
\<close>

theorem stale_close_breaks_disconnected_state:
  "map_option (\<lambda>m. (connected (state m), inputMuted (state m), outputMuted (state m),
                     recording (state m), readyStateOf m 1))
     (run staleCloseTrace startedManager)
   = Some (False, None, None, Some True, Some OPEN)"
  unfolding staleCloseTrace_def startedManager_eq otherHostSettings_def recordingFrame_def
  by (simp add: model_defs cong: let_weak_cong prod.case_cong_weak)

lemma handleMessage_connected: "connected (state (handleMessage d m)) = connected (state m)"
  unfolding handleMessage_refines
  by (cases "(spec_recognize d, m)" rule: spec_applyDelta.cases) (simp_all add: spec_set_state)

lemma onMessage_connected: "connected (state (onMessage p m)) = connected (state m)"
proof (cases p)
  case None
  then show ?thesis by (simp add: onMessage_def)
next
  case (Some msg)
  show ?thesis
  proof (cases "isFailureResponse msg")
    case True
    then show ?thesis
      by (cases "errorLogThrows msg") (simp_all add: Some onMessage_failure onMessage_failure_throws)
  next
    case False
    then show ?thesis
      by (cases "getProp msg (js ''data'')")
         (auto simp: Some onMessage_def isFailureResponse_def handleMessage_connected)
  qed
qed

lemma droppedState_unknown:
  "connected st \<or> (inputMuted st = None \<and> outputMuted st = None \<and> recording st = None) \<Longrightarrow>
   \<not> connected (droppedState st) \<and> inputMuted (droppedState st) = None \<and>
   outputMuted (droppedState st) = None \<and> recording (droppedState st) = None"
  by (auto simp: droppedState_def)

lemma settings_state:
  "state (onDidReceiveGlobalSettings gs m) = state m \<or>
   state (onDidReceiveGlobalSettings gs m) = droppedState (state m)"
  by (simp add: onDidReceiveGlobalSettings_def applySettings_def Let_def connect_eq disconnect_eq)

lemma fire_state: "state (fire t m) = state m"
proof (cases "kind (timers m ! t)")
  case ReconnectTimeout
  then show ?thesis by (simp add: fire_def reconnectCallback_def connect_eq clearTimer_eq)
next
  case PingInterval
  then show ?thesis by (cases "ws m") (simp_all add: fire_def pingCallback_def terminate_eq)
next
  case StableTimeout
  then show ?thesis by (simp add: fire_def stableCallback_def clearTimer_eq)
qed

lemma open_state: "connected (state (onOpen m))"
  unfolding onOpen_def startStableTimer_eq startPing_eq
  by (simp add: send_unrelated_fields setConnected_eq)

lemma close_state: "state (onClose (setReadyState s r m)) = droppedState (state m)"
  by (simp add: onClose_eq setReadyState_fields)

text \<open>
  Every event but an inbound frame keeps the tri-state fields unknown while the store is
  not connected, and so does an inbound frame that arrives while the store is connected.
  What the run \<open>staleCloseTrace\<close> adds is an inbound frame on a session that is still
  open while the store is not connected.
\<close>

lemma disconnected_state_preserved:
  assumes "disconnectedUnknown m" and "connected (state m) \<or> \<not> isInboundFrame e"
  shows "disconnectedUnknown (deliver e m)"
proof (cases e)
  case (DidReceiveGlobalSettings gs)
  then show ?thesis
    using assms(1) settings_state [of gs m] droppedState_unknown [of "state m"]
    by (auto simp: disconnectedUnknown_def)
next
  case (Send cmd onError)
  then show ?thesis using assms(1) by (simp add: disconnectedUnknown_def send_unrelated_fields)
next
  case (SocketOpen s)
  then show ?thesis by (simp add: disconnectedUnknown_def open_state)
next
  case (SocketClose s)
  then show ?thesis
    using assms(1) droppedState_unknown [of "state m"]
    by (simp add: disconnectedUnknown_def close_state)
next
  case (SocketError s)
  then show ?thesis using assms(1) by simp
next
  case (SocketPong s)
  then show ?thesis using assms(1) by (simp add: disconnectedUnknown_def onPong_def)
next
  case (SocketMessage s p)
  then show ?thesis using assms(2) by (simp add: disconnectedUnknown_def onMessage_connected)
next
  case (TimerFires t)
  then show ?thesis using assms(1) by (simp add: disconnectedUnknown_def fire_state)
qed

lemma disconnected_state_preserved_example:
  "disconnectedUnknown startedManager \<and>
   disconnectedUnknown (deliver (SocketClose 0) startedManager) \<and>
   disconnectedUnknown (deliver (SocketMessage 0 (Some recordingFrame)) connectedManager)"
proof -
  have s: "disconnectedUnknown startedManager" and c: "disconnectedUnknown connectedManager"
    and on: "connected (state connectedManager)"
    by (simp_all add: disconnectedUnknown_def startedManager_eq connectedManager_eq)
  from disconnected_state_preserved [OF s, of "SocketClose 0"]
    disconnected_state_preserved [OF c, of "SocketMessage 0 (Some recordingFrame)"] s on
  show ?thesis
    by simp
qed

text \<open>
  The notifications of a close event: none when the store was not connected, so no second
  \<open>connectionChanged(false)\<close>; otherwise the connection change first, then one notification
  for each of input mute, output mute and recording that was known, in this order.
\<close>

lemma close_notifications:
  "emitted (deliver (SocketClose s) m) =
     emitted m @
       (if connected (state m)
        then connectionChanged False #
             (if inputMuted (state m) \<noteq> None then [inputMuteChanged None] else []) @
             (if outputMuted (state m) \<noteq> None then [outputMuteChanged None] else []) @
             (if recording (state m) \<noteq> None then [recordingChanged None] else [])
        else [])"
  by (simp add: onClose_eq setReadyState_def droppedEvents_def disconnectedEvents_def)

end
